theory Spec2Isabelle
  imports Main "HOL-Library.Sublist"
begin

section \<open>JavaScript values and the library functions the monitor calls\<close>

text \<open>
  The monitor handles console arguments, caught errors and caller metadata of type
  \<open>any\<close>. It never looks inside them: it asks \<open>typeof\<close>, \<open>instanceof Error\<close>,
  reads \<open>message\<close> and \<open>stack\<close> of an error, and hands the value to \<open>JSON.stringify\<close>
  or \<open>String\<close>. The datatype keeps what those questions need. \<open>JObject n\<close> is an
  object with an acyclic graph (\<open>n\<close> is its identity), \<open>JCyclic n\<close> one whose graph
  has a cycle, on which \<open>JSON.stringify\<close> throws.
\<close>

datatype jsval =
    JUndefined
  | JNull
  | JBool bool
  | JNum int
  | JStr string
  | JError string "string option"
  | JObject nat
  | JCyclic nat

text \<open>An \<open>Error\<close> argument: its \<open>message\<close> and its optional \<open>stack\<close>.\<close>

record Error =
  err_message :: string
  err_stack :: "string option"

text \<open>
  Library functions that are not code of this repository are parameters: the text
  \<open>JSON.stringify\<close> produces (compact, and indented by two), \<open>String\<close>, and
  \<open>toISOString\<close> of the date at a number of epoch milliseconds.
\<close>

record jslib =
  json_text :: "jsval \<Rightarrow> string"
  json_pretty :: "jsval \<Rightarrow> string"
  string_of :: "jsval \<Rightarrow> string"
  iso_string :: "int \<Rightarrow> string"

definition TypeError_circular :: jsval where
  "TypeError_circular = JError ''Converting circular structure to JSON'' None"

definition RangeError_stack :: jsval where
  "RangeError_stack = JError ''Maximum call stack size exceeded'' None"

text \<open>
  \<open>JSON.stringify\<close>: throws on a cyclic object, returns \<open>undefined\<close> (here \<open>None\<close>)
  for \<open>undefined\<close>, and a text otherwise. A thrown value is \<open>Inl\<close>.
\<close>

definition JSON_stringify :: "(jsval \<Rightarrow> string) \<Rightarrow> jsval \<Rightarrow> jsval + string option" where
  "JSON_stringify txt v =
     (case v of
        JCyclic n \<Rightarrow> Inl TypeError_circular
      | JUndefined \<Rightarrow> Inr None
      | _ \<Rightarrow> Inr (Some (txt v)))"

definition typeof_object :: "jsval \<Rightarrow> bool" where
  "typeof_object v =
     (case v of JNull \<Rightarrow> True | JError m s \<Rightarrow> True | JObject n \<Rightarrow> True
      | JCyclic n \<Rightarrow> True | _ \<Rightarrow> False)"

definition instanceof_Error :: "jsval \<Rightarrow> bool" where
  "instanceof_Error v = (case v of JError m s \<Rightarrow> True | _ \<Rightarrow> False)"

text \<open>\<open>Array.prototype.join\<close> on strings, where \<open>None\<close> is an \<open>undefined\<close> element.\<close>

fun js_join :: "string \<Rightarrow> string option list \<Rightarrow> string" where
  "js_join sep [] = []"
| "js_join sep [x] = (case x of None \<Rightarrow> [] | Some s \<Rightarrow> s)"
| "js_join sep (x # y # ys) =
     (case x of None \<Rightarrow> [] | Some s \<Rightarrow> s) @ sep @ js_join sep (y # ys)"

text \<open>\<open>String.prototype.includes\<close>: the needle occurs somewhere in the string.\<close>

fun js_includes :: "string \<Rightarrow> string \<Rightarrow> bool" where
  "js_includes [] needle = (needle = [])"
| "js_includes (c # cs) needle = (prefix needle (c # cs) \<or> js_includes cs needle)"

text \<open>
  \<open>toUpperCase\<close> and \<open>toLowerCase\<close> on the ASCII letters; strings are byte lists
  here, and the monitor applies them to its own ASCII literals and to console text.
\<close>

definition upper_char :: "char \<Rightarrow> char" where
  "upper_char c =
     (let n = (of_char c :: nat) in if 97 \<le> n \<and> n \<le> 122 then char_of (n - 32) else c)"

definition lower_char :: "char \<Rightarrow> char" where
  "lower_char c =
     (let n = (of_char c :: nat) in if 65 \<le> n \<and> n \<le> 90 then char_of (n + 32) else c)"

definition toUpperCase :: "string \<Rightarrow> string" where
  "toUpperCase s = map upper_char s"

definition toLowerCase :: "string \<Rightarrow> string" where
  "toLowerCase s = map lower_char s"

text \<open>Truthiness of an optional string: \<open>undefined\<close> and the empty string are falsy.\<close>

definition truthy :: "string option \<Rightarrow> bool" where
  "truthy x = (case x of None \<Rightarrow> False | Some s \<Rightarrow> s \<noteq> [])"

text \<open>\<open>x || dflt\<close> on an optional string.\<close>

definition or_else :: "string option \<Rightarrow> string \<Rightarrow> string" where
  "or_else x dflt = (case x of None \<Rightarrow> dflt | Some s \<Rightarrow> if s = [] then dflt else s)"

text \<open>\<open>if (x) message += label + x\<close>: what is appended for an optional string.\<close>

definition labelled :: "string \<Rightarrow> string option \<Rightarrow> string" where
  "labelled label x = (case x of None \<Rightarrow> [] | Some s \<Rightarrow> if s = [] then [] else label @ s)"


section \<open>The error filter (utils/errorFiltering.ts)\<close>

text \<open>
  \<open>context?.status\<close>: \<open>undefined\<close> when the context is missing or has no such
  property. The context is an optional property map.
\<close>

definition context_status :: "(string \<rightharpoonup> jsval) option \<Rightarrow> jsval" where
  "context_status ctx =
     (case ctx of
        None \<Rightarrow> JUndefined
      | Some props \<Rightarrow> (case props ''status'' of None \<Rightarrow> JUndefined | Some v \<Rightarrow> v))"

text \<open>
  \<open>shouldReportError(error, context)\<close>; the first argument is the value of
  \<open>process.env.NODE_ENV\<close>, which the function reads.
\<close>

definition shouldReportError :: "string option \<Rightarrow> Error \<Rightarrow> (string \<rightharpoonup> jsval) option \<Rightarrow> bool" where
  "shouldReportError node_env error ctx =
     (if node_env = Some ''development'' then False
      else if js_includes (err_message error) ''chrome-extension://'' then False
      else if js_includes (err_message error) ''Failed to fetch'' \<and> context_status ctx = JNum 0
        then False
      else if js_includes (err_message error) ''Script error'' then False
      else True)"

text \<open>
  The policy in the words of the specification, to compare with the code: rule 4
  rejects when the message \<^emph>\<open>equals\<close> the script-loading marker.
\<close>

definition shouldReport_spec :: "string option \<Rightarrow> Error \<Rightarrow> (string \<rightharpoonup> jsval) option \<Rightarrow> bool" where
  "shouldReport_spec node_env error ctx =
     (if node_env = Some ''development'' then False
      else if js_includes (err_message error) ''chrome-extension://'' then False
      else if js_includes (err_message error) ''Failed to fetch'' \<and> context_status ctx = JNum 0
        then False
      else if err_message error = ''Script error'' then False
      else True)"

text \<open>What "the message contains the marker" means, independently of the search.\<close>

definition contains :: "string \<Rightarrow> string \<Rightarrow> bool" where
  "contains s marker = (\<exists>before after. s = before @ marker @ after)"

text \<open>\<open>getEnvironmentConfig()\<close>, from \<open>process.env.NODE_ENV\<close>.\<close>

record EnvironmentConfig =
  enableErrorReporting :: bool
  enablePerformanceMonitoring :: bool
  enableDebugLogs :: bool
  apiEndpoint :: string

definition getEnvironmentConfig :: "string option \<Rightarrow> EnvironmentConfig" where
  "getEnvironmentConfig node_env =
     (let isProduction = (node_env = Some ''production'');
          isDevelopment = (node_env = Some ''development'')
      in \<lparr> enableErrorReporting = isProduction,
           enablePerformanceMonitoring = isProduction,
           enableDebugLogs = isDevelopment,
           apiEndpoint = (if isProduction then ''https://api.wingman.dev''
                          else ''http://localhost:3001'') \<rparr>)"


section \<open>The configuration store (config.ts)\<close>

record WingmanConfig =
  cfg_accessToken :: string
  projectId :: "string option"
  cfg_environment :: string
  projectPath :: string
  enabled :: "bool option"
  createdAt :: "string option"

record ConfigManager =
  configPath :: string
  cm_config :: "WingmanConfig option"

text \<open>
  What the two awaited file-system calls of \<open>load\<close> do: each either rejects with an
  error value or yields its result. \<open>readJson\<close> is only consulted when the path exists.
\<close>

datatype 'a io = Raises jsval | Yields 'a

record config_file =
  pathExists :: "bool io"
  readJson :: "WingmanConfig io"

text \<open>A call of a console function: which one, and its arguments.\<close>

datatype console_kind = KError | KWarn | KLog

type_synonym console_call = "console_kind \<times> jsval list"

text \<open>
  \<open>load()\<close> returns the parsed config or \<open>null\<close>, the manager after the call, and the
  console calls it made. The assignment to \<open>this.config\<close> is the statement after
  \<open>readJson\<close> has returned; the \<open>catch\<close> logs and falls through to \<open>return null\<close>.
\<close>

definition load :: "config_file \<Rightarrow> ConfigManager \<Rightarrow> WingmanConfig option \<times> ConfigManager \<times> console_call list" where
  "load file cm =
     (case pathExists file of
        Raises e \<Rightarrow> (None, cm, [(KError, [JStr ''Failed to load Wingman config:'', e])])
      | Yields False \<Rightarrow> (None, cm, [])
      | Yields True \<Rightarrow>
          (case readJson file of
             Raises e \<Rightarrow> (None, cm, [(KError, [JStr ''Failed to load Wingman config:'', e])])
           | Yields c \<Rightarrow> (Some c, cm\<lparr>cm_config := Some c\<rparr>, [])))"

definition getConfig :: "ConfigManager \<Rightarrow> WingmanConfig option" where
  "getConfig cm = cm_config cm"

definition isEnabled :: "ConfigManager \<Rightarrow> bool" where
  "isEnabled cm = (case cm_config cm of None \<Rightarrow> False | Some c \<Rightarrow> enabled c = Some True)"



section \<open>The monitor and its host (monitor.ts)\<close>

subsection \<open>Function values\<close>

text \<open>
  Functions are compared by identity (\<open>removeListener\<close>, the handler slots), so a
  function value is modelled by what it is. A handler is a function of the host
  program, a method of the monitor's prototype (\<open>this.handleX\<close>, unbound), or the
  fresh function object that \<open>this.handleX.bind(this)\<close> creates. A console function
  is one of the host, or one of the three arrow functions that \<open>setupErrorHandlers\<close>
  creates. Fresh objects take their identity from a counter of the host.
\<close>

datatype handler = HostHandler nat | Method string | Bound nat string

datatype console_fn = HostFn nat | Hook nat console_kind

definition kind_name :: "console_kind \<Rightarrow> string" where
  "kind_name k = (case k of KError \<Rightarrow> ''error'' | KWarn \<Rightarrow> ''warn'' | KLog \<Rightarrow> ''log'')"

subsection \<open>Data\<close>

record logEntry =
  log_type :: string
  log_message :: string
  log_timestamp :: int
  log_args :: "jsval list"

datatype severity = Low | Medium | High | Critical

record projectInfo =
  pi_name :: "string option"
  pi_version :: "string option"
  pi_url :: "string option"

datatype metadata = MetaArgs "string list" | MetaRecord jsval

record ErrorReport =
  message :: string
  errorType :: string
  severity :: severity
  environment :: string
  accessToken :: string
  timestamp :: int
  stack :: "string option"
  projectInfo :: "projectInfo option"
  metadata :: "metadata option"

record webhook_payload =
  event :: string
  data :: ErrorReport
  payload_timestamp :: int
  source :: string

record post_request =
  url :: string
  body :: webhook_payload
  headers :: "(string \<times> string) list"
  timeout :: nat

text \<open>What reading \<open>package.json\<close> in a directory gives: name, version, homepage, repository url.\<close>

datatype manifest =
    NoManifest
  | BadManifest
  | Manifest "string option" "string option" "string option" "string option"

record WingmanMonitor =
  config :: "WingmanConfig option"
  configManager :: ConfigManager
  isStarted :: bool
  originalErrorHandler :: "handler option"
  originalUnhandledRejectionHandler :: "handler option"
  originalConsoleError :: console_fn
  originalConsoleWarn :: console_fn
  originalConsoleLog :: console_fn
  recentLogs :: "logEntry list"
  maxLogs :: nat

text \<open>
  The globals the monitor reads and writes. \<open>has_process\<close> is the guard
  \<open>typeof process !== 'undefined' && process.on\<close> (and the same for \<open>removeListener\<close>),
  \<open>has_window\<close> is \<open>typeof window !== 'undefined'\<close>; \<open>process.env\<close> is taken to be
  readable everywhere. \<open>posts\<close> are the requests handed to \<open>axios.post\<close> so far,
  \<open>console_out\<close> the calls that reached a console function of the host.
\<close>

record host =
  has_process :: bool
  uncaughtException :: "handler list"
  unhandledRejection :: "handler list"
  has_window :: bool
  window_onerror :: "handler option"
  window_onunhandledrejection :: "handler option"
  console_error :: console_fn
  console_warn :: console_fn
  console_log :: console_fn
  NODE_ENV :: "string option"
  WINGMAN_WEBHOOK_URL :: "string option"
  location_href :: "string option"
  navigator_userAgent :: "string option"
  cwd :: string
  package_json :: "string \<Rightarrow> manifest"
  now :: int
  fresh :: nat
  posts :: "post_request list"
  console_out :: "(nat \<times> jsval list) list"

text \<open>
  The constructor: a stopped monitor that remembers the current console functions.
  \<open>path.join\<close> is written as the directory, a slash and the file name, without
  its normalisation; no statement below reads \<open>configPath\<close>.
\<close>

definition new_WingmanMonitor :: "string option \<Rightarrow> host \<Rightarrow> WingmanMonitor" where
  "new_WingmanMonitor project h =
     \<lparr> config = None,
       configManager =
         \<lparr> configPath = or_else project (cwd h) @ ''/.wingman.json'', cm_config = None \<rparr>,
       isStarted = False,
       originalErrorHandler = None,
       originalUnhandledRejectionHandler = None,
       originalConsoleError = console_error h,
       originalConsoleWarn = console_warn h,
       originalConsoleLog = console_log h,
       recentLogs = [],
       maxLogs = 50 \<rparr>"

subsection \<open>The log ring buffer\<close>

definition serialize_arg :: "jslib \<Rightarrow> jsval \<Rightarrow> string" where
  "serialize_arg lib arg =
     (if typeof_object arg
      then (case JSON_stringify (json_pretty lib) arg of
              Inl e \<Rightarrow> ''[Circular Object]''
            | Inr None \<Rightarrow> []
            | Inr (Some s) \<Rightarrow> s)
      else string_of lib arg)"

text \<open>
  \<open>captureConsoleLog(type, args)\<close> at clock \<open>t\<close> (\<open>Date.now()\<close>): push, then one
  \<open>shift\<close> if the length exceeds \<open>maxLogs\<close>.
\<close>

definition captureConsoleLog :: "jslib \<Rightarrow> int \<Rightarrow> string \<Rightarrow> jsval list \<Rightarrow> WingmanMonitor \<Rightarrow> WingmanMonitor" where
  "captureConsoleLog lib t type args m =
     (let logEntry = \<lparr> log_type = type,
                        log_message = js_join '' '' (map (\<lambda>arg. Some (serialize_arg lib arg)) args),
                        log_timestamp = t,
                        log_args = args \<rparr>;
          pushed = recentLogs m @ [logEntry]
      in m\<lparr>recentLogs := (if length pushed > maxLogs m then tl pushed else pushed)\<rparr>)"

definition log_header :: string where
  "log_header = ''\<newline>\<newline>--- Recent Console Activity ---\<newline>''"

definition log_line :: "jslib \<Rightarrow> logEntry \<Rightarrow> string" where
  "log_line lib log =
     ''['' @ iso_string lib (log_timestamp log) @ ''] '' @ toUpperCase (log_type log) @ '': ''
       @ log_message log @ ''\<newline>''"

text \<open>
  \<open>getRelevantLogs(errorTimestamp, windowMs)\<close>: the text, and the monitor after the
  call. \<open>filter\<close> builds a new array and \<open>forEach\<close> appends to a local string.
\<close>

definition getRelevantLogs :: "jslib \<Rightarrow> WingmanMonitor \<Rightarrow> int \<Rightarrow> int \<Rightarrow> string \<times> WingmanMonitor" where
  "getRelevantLogs lib m errorTimestamp windowMs =
     (let startTime = errorTimestamp - windowMs;
          relevantLogs = filter (\<lambda>log. log_timestamp log \<ge> startTime
                                    \<and> log_timestamp log \<le> errorTimestamp) (recentLogs m)
      in if length relevantLogs = 0 then ([], m)
         else (foldl (\<lambda>logContext log. logContext @ log_line lib log) log_header relevantLogs, m))"


subsection \<open>Building a report\<close>

record errorContext =
  ctx_stack :: "string option"
  ctx_url :: "string option"
  ctx_userAgent :: "string option"

text \<open>\<open>buildComprehensiveMessage\<close>; its log window ends at \<open>Date.now()\<close>, with the default width.\<close>

definition buildComprehensiveMessage :: "jslib \<Rightarrow> WingmanMonitor \<Rightarrow> host \<Rightarrow> string \<Rightarrow> errorContext \<Rightarrow> string" where
  "buildComprehensiveMessage lib m h primaryMessage ec =
     primaryMessage
     @ fst (getRelevantLogs lib m (now h) 5000)
     @ labelled ''\<newline>\<newline>--- Context ---\<newline>URL: '' (ctx_url ec)
     @ labelled ''\<newline>User Agent: '' (ctx_userAgent ec)
     @ labelled ''\<newline>\<newline>--- Stack Trace ---\<newline>'' (ctx_stack ec)"

text \<open>\<open>typeof window !== 'undefined' ? window.location?.href : undefined\<close>, and the user agent.\<close>

definition page_url :: "host \<Rightarrow> string option" where
  "page_url h = (if has_window h then location_href h else None)"

definition page_userAgent :: "host \<Rightarrow> string option" where
  "page_userAgent h = (if has_window h then navigator_userAgent h else None)"

text \<open>\<open>getProjectInfo()\<close>: the manifest in the project directory, or \<open>{}\<close> on any failure.\<close>

definition getProjectInfo :: "WingmanMonitor \<Rightarrow> host \<Rightarrow> projectInfo" where
  "getProjectInfo m h =
     (case package_json h (or_else (map_option projectPath (config m)) (cwd h)) of
        Manifest nm ver homepage repo \<Rightarrow>
          \<lparr> pi_name = nm, pi_version = ver, pi_url = (if truthy homepage then homepage else repo) \<rparr>
      | _ \<Rightarrow> \<lparr> pi_name = None, pi_version = None, pi_url = None \<rparr>)"

definition config_environment :: "WingmanMonitor \<Rightarrow> string" where
  "config_environment m = or_else (map_option cfg_environment (config m)) ''unknown''"

definition config_accessToken :: "WingmanMonitor \<Rightarrow> string" where
  "config_accessToken m = or_else (map_option cfg_accessToken (config m)) []"

subsection \<open>The send path\<close>

text \<open>The request \<open>reportError\<close> hands to \<open>axios.post\<close> for a report.\<close>

definition request_of :: "host \<Rightarrow> ErrorReport \<Rightarrow> post_request" where
  "request_of h errorReport =
     \<lparr> url = or_else (WINGMAN_WEBHOOK_URL h) ''https://patchworks-sigma.vercel.app/webhook'',
       body = \<lparr> event = ''error.runtime'',
                data = errorReport,
                payload_timestamp = timestamp errorReport,
                source = ''wingman-monitor'' \<rparr>,
       headers = [(''Content-Type'', ''application/json''),
                  (''Authorization'', ''Bearer '' @ accessToken errorReport),
                  (''User-Agent'', ''Wingman-Monitor/1.0.0'')],
       timeout = 5000 \<rparr>"

text \<open>
  \<open>reportError\<close> is \<open>async\<close>. A caller that does not await it runs it up to its
  \<open>await\<close>: the guard on the config, and the request handed to \<open>axios.post\<close>.
\<close>

definition reportError_send :: "ErrorReport \<Rightarrow> WingmanMonitor \<Rightarrow> host \<Rightarrow> host" where
  "reportError_send errorReport m h =
     (case config m of
        None \<Rightarrow> h
      | Some c \<Rightarrow> h\<lparr>posts := posts h @ [request_of h errorReport]\<rparr>)"

text \<open>
  How a request ends. axios (not code of this repository) resolves on a status in
  \<open>[200, 300)\<close> and rejects with an error object otherwise, on a timeout and on a
  network error.
\<close>

datatype delivery = Response nat | Timeout | NetworkError

definition delivered :: "delivery \<Rightarrow> bool" where
  "delivered d = (case d of Response st \<Rightarrow> 200 \<le> st \<and> st < 300 | _ \<Rightarrow> False)"

definition axios_error :: "delivery \<Rightarrow> jsval" where
  "axios_error d =
     (case d of
        Response st \<Rightarrow> JError ''Request failed with status code'' None
      | Timeout \<Rightarrow> JError ''timeout of 5000ms exceeded'' None
      | NetworkError \<Rightarrow> JError ''Network Error'' None)"

subsection \<open>Console interception\<close>

text \<open>The first throw of a list of results, or all the values.\<close>

fun collect :: "(jsval + 'a) list \<Rightarrow> jsval + 'a list" where
  "collect [] = Inr []"
| "collect (Inl e # rs) = Inl e"
| "collect (Inr v # rs) = (case collect rs of Inl e \<Rightarrow> Inl e | Inr vs \<Rightarrow> Inr (v # vs))"

definition metadata_arg :: "jslib \<Rightarrow> jsval \<Rightarrow> string" where
  "metadata_arg lib arg =
     (if typeof_object arg
      then (case JSON_stringify (json_text lib) arg of
              Inl e \<Rightarrow> ''[Circular Object]''
            | Inr None \<Rightarrow> []
            | Inr (Some s) \<Rightarrow> s)
      else string_of lib arg)"

text \<open>
  \<open>handleConsoleError(args)\<close>. The \<open>JSON.stringify\<close> of its first line is outside any
  \<open>try\<close>. Its call of \<open>reportError\<close> is not awaited.
\<close>

definition handleConsoleError :: "jslib \<Rightarrow> jsval list \<Rightarrow> WingmanMonitor \<Rightarrow> host \<Rightarrow> (jsval + unit) \<times> host" where
  "handleConsoleError lib args m h =
     (case collect (map (\<lambda>arg. case arg of JStr s \<Rightarrow> Inr (Some s)
                                  | _ \<Rightarrow> JSON_stringify (json_text lib) arg) args) of
        Inl e \<Rightarrow> (Inl e, h)
      | Inr parts \<Rightarrow>
          (let msg = js_join '' '' parts in
           if js_includes (toLowerCase msg) ''error'' \<or> list_ex instanceof_Error args
           then (Inr (),
                 reportError_send
                   \<lparr> message = buildComprehensiveMessage lib m h msg
                       \<lparr> ctx_stack = None, ctx_url = page_url h, ctx_userAgent = page_userAgent h \<rparr>,
                     errorType = ''consoleError'',
                     severity = Low,
                     environment = config_environment m,
                     accessToken = config_accessToken m,
                     timestamp = now h,
                     stack = None,
                     projectInfo = Some (getProjectInfo m h),
                     metadata = Some (MetaArgs (map (metadata_arg lib) args)) \<rparr> m h)
           else (Inr (), h)))"

definition console_of :: "console_kind \<Rightarrow> host \<Rightarrow> console_fn" where
  "console_of k h = (case k of KError \<Rightarrow> console_error h | KWarn \<Rightarrow> console_warn h
                     | KLog \<Rightarrow> console_log h)"

definition original_of :: "console_kind \<Rightarrow> WingmanMonitor \<Rightarrow> console_fn" where
  "original_of k m = (case k of KError \<Rightarrow> originalConsoleError m | KWarn \<Rightarrow> originalConsoleWarn m
                      | KLog \<Rightarrow> originalConsoleLog m)"

text \<open>
  Calling a console function with a number of stack frames left. A function of the
  host prints. An arrow function of \<open>setupErrorHandlers\<close> calls the original that the
  monitor holds \<^emph>\<open>now\<close> (\<open>this.originalConsoleError\<close> is read at each call), records the
  call, and for \<open>console.error\<close> runs \<open>handleConsoleError\<close>. When the frames run out the
  engine throws a \<open>RangeError\<close>. A throw keeps the changes made before it.
\<close>

fun call_console :: "nat \<Rightarrow> jslib \<Rightarrow> console_fn \<Rightarrow> jsval list \<Rightarrow> WingmanMonitor \<Rightarrow> host
    \<Rightarrow> (jsval + unit) \<times> WingmanMonitor \<times> host" where
  "call_console 0 lib f args m h = (Inl RangeError_stack, m, h)"
| "call_console (Suc n) lib (HostFn i) args m h =
     (Inr (), m, h\<lparr>console_out := console_out h @ [(i, args)]\<rparr>)"
| "call_console (Suc n) lib (Hook i k) args m h =
     (case call_console n lib (original_of k m) args m h of
        (Inl e, m1, h1) \<Rightarrow> (Inl e, m1, h1)
      | (Inr u, m1, h1) \<Rightarrow>
          (let m2 = captureConsoleLog lib (now h1) (kind_name k) args m1 in
           if k = KError
           then (case handleConsoleError lib args m2 h1 of (r, h2) \<Rightarrow> (r, m2, h2))
           else (Inr (), m2, h1)))"

text \<open>\<open>console.error(...)\<close>, \<open>console.warn(...)\<close>, \<open>console.log(...)\<close>: the global, looked up at the call.\<close>

definition console :: "console_kind \<Rightarrow> nat \<Rightarrow> jslib \<Rightarrow> jsval list \<Rightarrow> WingmanMonitor \<Rightarrow> host
    \<Rightarrow> (jsval + unit) \<times> WingmanMonitor \<times> host" where
  "console k frames lib args m h = call_console frames lib (console_of k h) args m h"

fun run_calls :: "nat \<Rightarrow> jslib \<Rightarrow> console_call list \<Rightarrow> WingmanMonitor \<Rightarrow> host
    \<Rightarrow> (jsval + unit) \<times> WingmanMonitor \<times> host" where
  "run_calls frames lib [] m h = (Inr (), m, h)"
| "run_calls frames lib ((k, args) # cs) m h =
     (case console k frames lib args m h of
        (Inl e, m1, h1) \<Rightarrow> (Inl e, m1, h1)
      | (Inr u, m1, h1) \<Rightarrow> run_calls frames lib cs m1 h1)"

text \<open>
  The rest of \<open>reportError\<close>, run when its request ends: the success log inside
  the \<open>try\<close>, or the failure log of the \<open>catch\<close>, which also catches a throw of
  the success log.
\<close>

definition reportError_settle :: "nat \<Rightarrow> jslib \<Rightarrow> delivery \<Rightarrow> WingmanMonitor \<Rightarrow> host
    \<Rightarrow> (jsval + unit) \<times> WingmanMonitor \<times> host" where
  "reportError_settle frames lib d m h =
     (case (if delivered d
            then console KLog frames lib [JStr ''Wingman: Error reported successfully''] m h
            else (Inl (axios_error d), m, h)) of
        (Inr u, m1, h1) \<Rightarrow> (Inr (), m1, h1)
      | (Inl e, m1, h1) \<Rightarrow>
          console KError frames lib [JStr ''Wingman: Failed to report error:'', e] m1 h1)"

text \<open>
  \<open>reportError(errorReport)\<close>, awaited, with the way its request ends: the guard on
  the config, the request, and the rest. (The call that \<open>handleConsoleError\<close> makes is
  not awaited: its request is sent within the console call, and its rest is a later
  step of its own.)
\<close>

definition reportError :: "nat \<Rightarrow> jslib \<Rightarrow> delivery \<Rightarrow> ErrorReport \<Rightarrow> WingmanMonitor \<Rightarrow> host
    \<Rightarrow> (jsval + unit) \<times> WingmanMonitor \<times> host" where
  "reportError frames lib d errorReport m h =
     (case config m of
        None \<Rightarrow> (Inr (), m, h)
      | Some c \<Rightarrow> reportError_settle frames lib d m (reportError_send errorReport m h))"

text \<open>\<open>reportCustomError(error, metadata)\<close>.\<close>

definition customErrorReport :: "jslib \<Rightarrow> Error \<Rightarrow> jsval option \<Rightarrow> WingmanMonitor \<Rightarrow> host \<Rightarrow> ErrorReport" where
  "customErrorReport lib error md m h =
     \<lparr> message = buildComprehensiveMessage lib m h (err_message error)
         \<lparr> ctx_stack = err_stack error, ctx_url = page_url h, ctx_userAgent = page_userAgent h \<rparr>,
       errorType = ''customError'',
       severity = Medium,
       environment = config_environment m,
       accessToken = config_accessToken m,
       timestamp = now h,
       stack = err_stack error,
       projectInfo = Some (getProjectInfo m h),
       metadata = map_option MetaRecord md \<rparr>"

definition reportCustomError :: "nat \<Rightarrow> jslib \<Rightarrow> delivery \<Rightarrow> Error \<Rightarrow> jsval option \<Rightarrow> WingmanMonitor \<Rightarrow> host
    \<Rightarrow> (jsval + unit) \<times> WingmanMonitor \<times> host" where
  "reportCustomError frames lib d error md m h =
     reportError frames lib d (customErrorReport lib error md m h) m h"


subsection \<open>Lifecycle\<close>

text \<open>
  \<open>setupErrorHandlers()\<close>. \<open>process.on\<close> appends a listener; each \<open>bind\<close> and each
  arrow function is a fresh function object.
\<close>

definition setupErrorHandlers :: "WingmanMonitor \<Rightarrow> host \<Rightarrow> WingmanMonitor \<times> host" where
  "setupErrorHandlers m h =
     (let h1 = (if has_process h
                then h\<lparr> uncaughtException :=
                          uncaughtException h @ [Bound (fresh h) ''handleUncaughtException''],
                        unhandledRejection :=
                          unhandledRejection h @ [Bound (fresh h + 1) ''handleUnhandledRejection''],
                        fresh := fresh h + 2 \<rparr>
                else h);
          m1 = (if has_window h1
                then m\<lparr> originalErrorHandler := window_onerror h1,
                        originalUnhandledRejectionHandler := window_onunhandledrejection h1 \<rparr>
                else m);
          h2 = (if has_window h1
                then h1\<lparr> window_onerror := Some (Bound (fresh h1) ''handleWindowError''),
                         window_onunhandledrejection :=
                           Some (Bound (fresh h1 + 1) ''handleWindowUnhandledRejection''),
                         fresh := fresh h1 + 2 \<rparr>
                else h1);
          m2 = m1\<lparr> originalConsoleError := console_error h2,
                    originalConsoleWarn := console_warn h2,
                    originalConsoleLog := console_log h2 \<rparr>;
          h3 = h2\<lparr> console_error := Hook (fresh h2) KError,
                    console_warn := Hook (fresh h2 + 1) KWarn,
                    console_log := Hook (fresh h2 + 2) KLog,
                    fresh := fresh h2 + 3 \<rparr>
      in (m2, h3))"

text \<open>
  \<open>removeListener(event, f)\<close> of an event emitter: the most recently added listener
  identical to \<open>f\<close> is removed; with none, nothing changes.
\<close>

definition removeListener :: "handler list \<Rightarrow> handler \<Rightarrow> handler list" where
  "removeListener ls f = rev (remove1 f (rev ls))"

text \<open>\<open>removeErrorHandlers()\<close>: the listeners it names are the prototype methods.\<close>

definition removeErrorHandlers :: "WingmanMonitor \<Rightarrow> host \<Rightarrow> WingmanMonitor \<times> host" where
  "removeErrorHandlers m h =
     (let h1 = (if has_process h
                then h\<lparr> uncaughtException :=
                          removeListener (uncaughtException h) (Method ''handleUncaughtException''),
                        unhandledRejection :=
                          removeListener (unhandledRejection h) (Method ''handleUnhandledRejection'') \<rparr>
                else h);
          h2 = (if has_window h1
                then (case originalErrorHandler m of
                        Some f \<Rightarrow> h1\<lparr>window_onerror := Some f\<rparr>
                      | None \<Rightarrow> h1)
                else h1);
          h3 = (if has_window h2
                then (case originalUnhandledRejectionHandler m of
                        Some f \<Rightarrow> h2\<lparr>window_onunhandledrejection := Some f\<rparr>
                      | None \<Rightarrow> h2)
                else h2)
      in (m, h3))"

definition no_config_text :: string where
  "no_config_text =
     ''Wingman: No configuration found. Run '' @ [CHR 0x22] @ ''wingman init <accessToken>''
       @ [CHR 0x22] @ '' first.''"

text \<open>
  The body of the \<open>try\<close> of \<open>start()\<close>, given what the config file holds. The config
  is loaded and stored first, the three guards follow in the order of the source.
\<close>

definition start_try :: "nat \<Rightarrow> jslib \<Rightarrow> config_file \<Rightarrow> WingmanMonitor \<Rightarrow> host
    \<Rightarrow> (jsval + unit) \<times> WingmanMonitor \<times> host" where
  "start_try frames lib file m h =
     (case load file (configManager m) of
        (loaded, cm1, calls) \<Rightarrow>
          (case run_calls frames lib calls (m\<lparr>configManager := cm1\<rparr>) h of
             (Inl e, m1, h1) \<Rightarrow> (Inl e, m1, h1)
           | (Inr u, m1, h1) \<Rightarrow>
               (let m2 = m1\<lparr>config := loaded\<rparr> in
                case loaded of
                  None \<Rightarrow> console KWarn frames lib [JStr no_config_text] m2 h1
                | Some c \<Rightarrow>
                    if enabled c \<noteq> Some True
                    then console KLog frames lib [JStr ''Wingman: Monitoring is disabled.''] m2 h1
                    else if isStarted m2
                    then console KWarn frames lib [JStr ''Wingman: Already started.''] m2 h1
                    else (case setupErrorHandlers m2 h1 of
                            (m3, h3) \<Rightarrow>
                              console KLog frames lib
                                [JStr (''Wingman: Monitoring started for '' @ cfg_environment c
                                       @ '' environment'')]
                                (m3\<lparr>isStarted := True\<rparr>) h3))))"

definition start :: "nat \<Rightarrow> jslib \<Rightarrow> config_file \<Rightarrow> WingmanMonitor \<Rightarrow> host
    \<Rightarrow> (jsval + unit) \<times> WingmanMonitor \<times> host" where
  "start frames lib file m h =
     (case start_try frames lib file m h of
        (Inr u, m1, h1) \<Rightarrow> (Inr (), m1, h1)
      | (Inl e, m1, h1) \<Rightarrow>
          console KError frames lib [JStr ''Wingman: Failed to start monitoring:'', e] m1 h1)"

definition stop :: "nat \<Rightarrow> jslib \<Rightarrow> WingmanMonitor \<Rightarrow> host \<Rightarrow> (jsval + unit) \<times> WingmanMonitor \<times> host" where
  "stop frames lib m h =
     (if \<not> isStarted m then (Inr (), m, h)
      else (case removeErrorHandlers m h of
              (m1, h1) \<Rightarrow>
                console KLog frames lib [JStr ''Wingman: Monitoring stopped'']
                  (m1\<lparr>isStarted := False\<rparr>) h1))"

definition isActive :: "WingmanMonitor \<Rightarrow> bool" where
  "isActive m = (isStarted m \<and> (case config m of None \<Rightarrow> False | Some c \<Rightarrow> enabled c = Some True))"


section \<open>Notions used in the statements, and example inputs\<close>

text \<open>An entry lies in the window of width \<open>w\<close> that ends at \<open>t\<close>, both ends included.\<close>

definition in_window :: "int \<Rightarrow> int \<Rightarrow> logEntry \<Rightarrow> bool" where
  "in_window t w e = (t - w \<le> log_timestamp e \<and> log_timestamp e \<le> t)"

text \<open>The entry that \<open>captureConsoleLog\<close> builds for a call at clock \<open>t\<close>.\<close>

definition logEntry_of :: "jslib \<Rightarrow> int \<times> string \<times> jsval list \<Rightarrow> logEntry" where
  "logEntry_of lib call =
     (case call of (t, type, args) \<Rightarrow>
        \<lparr> log_type = type,
          log_message = js_join '' '' (map (\<lambda>arg. Some (serialize_arg lib arg)) args),
          log_timestamp = t,
          log_args = args \<rparr>)"

text \<open>A sequence of record operations, each with its clock, kind and arguments.\<close>

fun record_all :: "jslib \<Rightarrow> (int \<times> string \<times> jsval list) list \<Rightarrow> WingmanMonitor \<Rightarrow> WingmanMonitor" where
  "record_all lib [] m = m"
| "record_all lib ((t, type, args) # calls) m = record_all lib calls (captureConsoleLog lib t type args m)"

definition example_lib :: jslib where
  "example_lib = \<lparr> json_text = (\<lambda>v. ''{}''), json_pretty = (\<lambda>v. ''{}''),
                     string_of = (\<lambda>v. ''value''), iso_string = (\<lambda>t. ''1970-01-01T00:00:00.000Z'') \<rparr>"

definition example_host :: host where
  "example_host =
     \<lparr> has_process = True, uncaughtException = [], unhandledRejection = [],
       has_window = False, window_onerror = None, window_onunhandledrejection = None,
       console_error = HostFn 0, console_warn = HostFn 1, console_log = HostFn 2,
       NODE_ENV = Some ''development'', WINGMAN_WEBHOOK_URL = None, location_href = None,
       navigator_userAgent = None, cwd = ''/app'', package_json = (\<lambda>dir. NoManifest),
       now = 6000, fresh = 10, posts = [], console_out = [] \<rparr>"

definition example_config :: WingmanConfig where
  "example_config =
     \<lparr> cfg_accessToken = ''token'', projectId = None, cfg_environment = ''production'',
       projectPath = ''/app'', enabled = Some True, createdAt = None \<rparr>"

definition example_calls :: "(int \<times> string \<times> jsval list) list" where
  "example_calls = map (\<lambda>i. (int i, ''log'', [JNum (int i)])) [0..<51]"

definition example_file :: config_file where
  "example_file = \<lparr> pathExists = Yields True, readJson = Yields example_config \<rparr>"

definition example_file_disabled :: config_file where
  "example_file_disabled =
     \<lparr> pathExists = Yields True, readJson = Yields (example_config\<lparr>enabled := Some False\<rparr>) \<rparr>"

definition example_file_absent :: config_file where
  "example_file_absent = \<lparr> pathExists = Yields False, readJson = Raises JNull \<rparr>"

definition example_monitor :: WingmanMonitor where
  "example_monitor = new_WingmanMonitor None example_host"

text \<open>The hooks in the host's slots, and what the monitor saved of the slots' former values.\<close>

definition installed_hooks :: "host \<Rightarrow> handler list \<times> handler list \<times> handler option \<times> handler option
    \<times> console_fn \<times> console_fn \<times> console_fn" where
  "installed_hooks h =
     (uncaughtException h, unhandledRejection h, window_onerror h, window_onunhandledrejection h,
      console_error h, console_warn h, console_log h)"

definition saved_originals :: "WingmanMonitor \<Rightarrow> handler option \<times> handler option
    \<times> console_fn \<times> console_fn \<times> console_fn" where
  "saved_originals m =
     (originalErrorHandler m, originalUnhandledRejectionHandler m,
      originalConsoleError m, originalConsoleWarn m, originalConsoleLog m)"

definition is_host :: "console_fn \<Rightarrow> bool" where
  "is_host f = (case f of HostFn i \<Rightarrow> True | Hook i k \<Rightarrow> False)"

text \<open>
  The console functions the monitor would call through are the host's own. The
  constructor and the first \<open>start()\<close> establish this.
\<close>

definition originals_are_host :: "WingmanMonitor \<Rightarrow> bool" where
  "originals_are_host m =
     (is_host (originalConsoleError m) \<and> is_host (originalConsoleWarn m)
      \<and> is_host (originalConsoleLog m))"

text \<open>
  Frames: the monitor \<open>m'\<close> is \<open>m\<close> up to the log buffer; the host \<open>h'\<close> is \<open>h\<close> up to
  further requests and console output.
\<close>

definition buffer_only :: "WingmanMonitor \<Rightarrow> WingmanMonitor \<Rightarrow> bool" where
  "buffer_only m m' = (\<exists>logs. m' = m\<lparr>recentLogs := logs\<rparr>)"

definition traces_only :: "host \<Rightarrow> host \<Rightarrow> bool" where
  "traces_only h h' = (\<exists>ps out. h' = h\<lparr>posts := posts h @ ps, console_out := out\<rparr>)"

text \<open>The monitor and the host after a call that returns its result with both.\<close>

abbreviation monitor_of :: "'r \<times> WingmanMonitor \<times> host \<Rightarrow> WingmanMonitor" where
  "monitor_of x \<equiv> fst (snd x)"

abbreviation host_of :: "'r \<times> WingmanMonitor \<times> host \<Rightarrow> host" where
  "host_of x \<equiv> snd (snd x)"

text \<open>The example monitor after a first \<open>start()\<close> on the enabled example config, eight frames deep.\<close>

definition started_example :: "(jsval + unit) \<times> WingmanMonitor \<times> host" where
  "started_example = start 8 example_lib example_file example_monitor example_host"

text \<open>The example monitor after \<open>start()\<close> on the disabled example config, and an error to report.\<close>

definition disabled_example :: "(jsval + unit) \<times> WingmanMonitor \<times> host" where
  "disabled_example = start 8 example_lib example_file_disabled example_monitor example_host"

definition example_error :: Error where
  "example_error = \<lparr> err_message = ''boom'', err_stack = None \<rparr>"



text \<open>The started example monitor after \<open>stop()\<close>.\<close>

definition stopped_example :: "(jsval + unit) \<times> WingmanMonitor \<times> host" where
  "stopped_example = stop 8 example_lib (monitor_of started_example) (host_of started_example)"


text \<open>
  The window query in the words of the specification, to compare with the code: the
  entries in the window, in buffer order, one line \<open>[ISO-time] KIND: message\<close> each,
  and nothing else.
\<close>

definition windowSince_spec :: "jslib \<Rightarrow> logEntry list \<Rightarrow> int \<Rightarrow> int \<Rightarrow> string" where
  "windowSince_spec lib buffer t w =
     concat (map (\<lambda>e. ''['' @ iso_string lib (log_timestamp e) @ ''] '' @ toUpperCase (log_type e)
                       @ '': '' @ log_message e @ ''\<newline>'')
                 (filter (in_window t w) buffer))"

text \<open>
  A library whose dates differ, and a monitor whose buffer holds entries at 999, 1000
  and 4000 milliseconds, for a query at 6000.
\<close>

definition window_lib :: jslib where
  "window_lib = example_lib\<lparr> iso_string :=
     (\<lambda>t. if t = 1000 then ''1970-01-01T00:00:01.000Z''
          else if t = 4000 then ''1970-01-01T00:00:04.000Z''
          else ''1970-01-01T00:00:00.999Z'') \<rparr>"

definition window_monitor :: WingmanMonitor where
  "window_monitor = example_monitor\<lparr> recentLogs :=
     [\<lparr> log_type = ''log'', log_message = ''early'', log_timestamp = 999, log_args = [JStr ''early''] \<rparr>,
      \<lparr> log_type = ''error'', log_message = ''first'', log_timestamp = 1000, log_args = [JStr ''first''] \<rparr>,
      \<lparr> log_type = ''warn'', log_message = ''second'', log_timestamp = 4000, log_args = [JStr ''second''] \<rparr>] \<rparr>"



section \<open>The error filter\<close>

lemma js_includes_sublist: "js_includes s needle = sublist needle s"
  by (induction s) (auto simp: sublist_Cons_right)

lemma js_includes_contains: "js_includes s needle = contains s needle"
  by (simp add: js_includes_sublist contains_def sublist_def)

text \<open>
  C2 (as amended). \<open>shouldReportError\<close> applies, first match wins: reject in the
  development environment (\<open>NODE_ENV\<close> is \<open>development\<close>); reject if the message
  contains the browser-extension marker; reject if the message contains
  \<open>Failed to fetch\<close> and the context's status is the number 0; reject if the message
  \<^emph>\<open>contains\<close> the marker \<open>Script error\<close>; accept otherwise. In development it
  returns false whatever the error is.
\<close>

theorem shouldReportError_policy:
  "shouldReportError env e ctx =
     (if env = Some ''development'' then False
      else if contains (err_message e) ''chrome-extension://'' then False
      else if contains (err_message e) ''Failed to fetch'' \<and> context_status ctx = JNum 0 then False
      else if contains (err_message e) ''Script error'' then False
      else True)
   \<and> shouldReportError (Some ''development'') e ctx = False"
  by (simp add: shouldReportError_def js_includes_contains)

text \<open>
  C2 as stated fails: on a message that contains the marker \<open>Script error\<close> inside a
  longer text, and so is not equal to it, the code rejects where the stated rule 4
  does not apply and rule 5 accepts.
\<close>

theorem shouldReport_equals_counterexample:
  "shouldReportError (Some ''production'')
     \<lparr>err_message = ''Uncaught Script error in bundle.js'', err_stack = None\<rparr> None = False
   \<and> shouldReport_spec (Some ''production'')
     \<lparr>err_message = ''Uncaught Script error in bundle.js'', err_stack = None\<rparr> None = True"
  by (simp add: shouldReportError_def shouldReport_spec_def context_status_def)


section \<open>The log ring buffer\<close>

lemma captureConsoleLog_recentLogs:
  "recentLogs (captureConsoleLog lib t type args m) =
     (if length (recentLogs m) \<ge> maxLogs m
      then tl (recentLogs m @ [logEntry_of lib (t, type, args)])
      else recentLogs m @ [logEntry_of lib (t, type, args)])"
  by (simp add: captureConsoleLog_def logEntry_of_def Let_def)

lemma captureConsoleLog_maxLogs: "maxLogs (captureConsoleLog lib t type args m) = maxLogs m"
  by (simp add: captureConsoleLog_def Let_def)

lemma record_all_maxLogs: "maxLogs (record_all lib calls m) = maxLogs m"
  by (induction lib calls m rule: record_all.induct) (simp_all add: captureConsoleLog_maxLogs)

lemma drop_drop_append:
  "b \<le> length zs \<Longrightarrow> drop a (drop b zs @ ys) = drop (a + b) (zs @ ys)"
  by (simp add: add.commute)

lemma capture_drop:
  assumes "length (recentLogs m) \<le> maxLogs m"
  shows "recentLogs (captureConsoleLog lib t type args m) =
      drop (Suc (length (recentLogs m)) - maxLogs m) (recentLogs m @ [logEntry_of lib (t, type, args)])"
proof (cases "length (recentLogs m) = maxLogs m")
  case True
  then have one: "Suc (length (recentLogs m)) - maxLogs m = Suc 0" by simp
  have "drop (Suc 0) (recentLogs m @ [logEntry_of lib (t, type, args)])
      = tl (recentLogs m @ [logEntry_of lib (t, type, args)])"
    by (simp only: drop_Suc drop_0)
  with True one show ?thesis
    by (simp only: captureConsoleLog_recentLogs) simp
next
  case False
  with assms have "length (recentLogs m) < maxLogs m" by simp
  then show ?thesis by (simp add: captureConsoleLog_recentLogs)
qed

lemma capture_length:
  "length (recentLogs m) \<le> maxLogs m \<Longrightarrow>
     length (recentLogs (captureConsoleLog lib t type args m)) \<le> maxLogs m"
  by (simp add: capture_drop)

lemma record_all_drop:
  "length (recentLogs m) \<le> maxLogs m \<Longrightarrow>
     recentLogs (record_all lib calls m) =
       drop (length (recentLogs m) + length calls - maxLogs m)
         (recentLogs m @ map (logEntry_of lib) calls)"
proof (induction lib calls m rule: record_all.induct)
  case (1 lib m)
  then show ?case by simp
next
  case (2 lib t type args calls m)
  let ?m1 = "captureConsoleLog lib t type args m"
  let ?e = "logEntry_of lib (t, type, args)"
  let ?b = "Suc (length (recentLogs m)) - maxLogs m"
  let ?rest = "map (logEntry_of lib) calls"
  have len: "length (recentLogs ?m1) \<le> maxLogs ?m1"
    using "2.prems" by (simp add: capture_length captureConsoleLog_maxLogs)
  have step: "recentLogs ?m1 = drop ?b (recentLogs m @ [?e])"
    using "2.prems" by (rule capture_drop)
  have size1: "length (recentLogs ?m1) = Suc (length (recentLogs m)) - ?b"
    by (simp only: step length_drop) simp
  have "recentLogs (record_all lib calls ?m1) =
      drop (length (recentLogs ?m1) + length calls - maxLogs m) (recentLogs ?m1 @ ?rest)"
    using "2.IH"[OF len] by (simp add: captureConsoleLog_maxLogs)
  also have "\<dots> = drop (length (recentLogs ?m1) + length calls - maxLogs m)
        (drop ?b (recentLogs m @ [?e]) @ ?rest)"
    by (simp only: step[symmetric])
  also have "\<dots> = drop (length (recentLogs ?m1) + length calls - maxLogs m + ?b)
        ((recentLogs m @ [?e]) @ ?rest)"
    by (rule drop_drop_append) simp
  also have "length (recentLogs ?m1) + length calls - maxLogs m + ?b
      = length (recentLogs m) + length ((t, type, args) # calls) - maxLogs m"
    using "2.prems" unfolding size1 by simp
  finally show ?case by simp
qed


text \<open>
  C3. With the capacity of 50 and a buffer within it (the constructor's is empty), after
  any sequence of record operations the buffer holds at most 50 entries: the last 50
  of the old entries followed by the new ones, in insertion order. A record on a full
  buffer drops exactly the oldest entry. After 51 records on an empty buffer the first
  entry is gone and the other 50 remain in order.
\<close>

theorem ring_buffer_fifo:
  assumes a: "length (recentLogs m) \<le> maxLogs m \<and> maxLogs m = 50"
  shows "length (recentLogs (record_all lib calls m)) \<le> 50
     \<and> recentLogs (record_all lib calls m) =
         drop (length (recentLogs m @ map (logEntry_of lib) calls) - 50)
           (recentLogs m @ map (logEntry_of lib) calls)
     \<and> (length (recentLogs m) = 50 \<longrightarrow>
          recentLogs (captureConsoleLog lib t type args m) =
            tl (recentLogs m) @ [logEntry_of lib (t, type, args)])
     \<and> (recentLogs m = [] \<and> length calls = 51 \<longrightarrow>
          recentLogs (record_all lib calls m) = tl (map (logEntry_of lib) calls))"
proof (intro impI conjI)
  from a have eq: "recentLogs (record_all lib calls m) =
      drop (length (recentLogs m) + length calls - 50) (recentLogs m @ map (logEntry_of lib) calls)"
    using record_all_drop[of m lib calls] by simp
  show "recentLogs (record_all lib calls m) =
      drop (length (recentLogs m @ map (logEntry_of lib) calls) - 50)
        (recentLogs m @ map (logEntry_of lib) calls)"
    using eq by simp
  show "length (recentLogs (record_all lib calls m)) \<le> 50"
    unfolding eq by simp
  {
    assume full: "length (recentLogs m) = 50"
    then have "recentLogs m \<noteq> []" by auto
    then show "recentLogs (captureConsoleLog lib t type args m) =
        tl (recentLogs m) @ [logEntry_of lib (t, type, args)]"
      using a full by (simp add: captureConsoleLog_recentLogs)
  }
  {
    assume e: "recentLogs m = [] \<and> length calls = 51"
    have "drop (Suc 0) (map (logEntry_of lib) calls) = tl (map (logEntry_of lib) calls)"
      by (simp only: drop_Suc drop_0)
    then show "recentLogs (record_all lib calls m) = tl (map (logEntry_of lib) calls)"
      using e eq by simp
  }
qed

theorem ring_buffer_fifo_witness:
  "length (recentLogs (record_all example_lib example_calls (new_WingmanMonitor None example_host))) \<le> 50
   \<and> recentLogs (record_all example_lib example_calls (new_WingmanMonitor None example_host)) =
       tl (map (logEntry_of example_lib) example_calls)"
proof -
  have h: "length (recentLogs (new_WingmanMonitor None example_host))
             \<le> maxLogs (new_WingmanMonitor None example_host)
           \<and> maxLogs (new_WingmanMonitor None example_host) = 50"
    by (simp add: new_WingmanMonitor_def)
  have e: "recentLogs (new_WingmanMonitor None example_host) = [] \<and> length example_calls = 51"
    by (simp add: new_WingmanMonitor_def example_calls_def)
  from ring_buffer_fifo[OF h, where lib = example_lib and calls = example_calls] e
  show ?thesis by blast
qed

lemma foldl_append_concat: "foldl (\<lambda>acc x. acc @ f x) init xs = init @ concat (map f xs)"
  by (induction xs arbitrary: init) simp_all

lemma getRelevantLogs_filter:
  "getRelevantLogs lib m t w =
     (if filter (in_window t w) (recentLogs m) = [] then []
      else log_header @ concat (map (log_line lib) (filter (in_window t w) (recentLogs m))), m)"
proof -
  have same: "(\<lambda>log. t - w \<le> log_timestamp log \<and> log_timestamp log \<le> t) = in_window t w"
    by (rule ext) (simp add: in_window_def)
  show ?thesis
    by (simp add: getRelevantLogs_def Let_def same foldl_append_concat)
qed

lemma upper_kinds:
  "toUpperCase ''log'' = ''LOG'' \<and> toUpperCase ''warn'' = ''WARN'' \<and> toUpperCase ''error'' = ''ERROR''"
  by code_simp

lemma window_example:
  "fst (getRelevantLogs window_lib window_monitor 6000 5000) =
     ''\<newline>\<newline>--- Recent Console Activity ---\<newline>[1970-01-01T00:00:01.000Z] ERROR: first\<newline>[1970-01-01T00:00:04.000Z] WARN: second\<newline>''"
  by code_simp

text \<open>
  C4 (as amended). The window query selects exactly the entries whose timestamp lies in
  \<open>[t - w, t]\<close>, both ends included. When none matches it returns the empty string.
  Otherwise it returns the header \<open>--- Recent Console Activity ---\<close> (after two
  newlines, before one) followed by one line per selected entry, in buffer order, of
  the form \<open>[ISO-time] KIND: message\<close>, where \<open>KIND\<close> is the entry's type in upper
  case (\<open>LOG\<close>, \<open>WARN\<close>, \<open>ERROR\<close>). The monitor, and so the buffer, is unchanged.
  For the width 5000 an entry at \<open>t - 5000\<close> or at \<open>t\<close> is in the window, one at
  \<open>t - 5001\<close> or at \<open>t + 1\<close> is not. On the example buffer, queried at 6000, the
  entries at 1000 and 4000 are returned in that order and the one at 999 is not.
\<close>

theorem getRelevantLogs_window:
  "fst (getRelevantLogs lib m t w) =
     (if filter (in_window t w) (recentLogs m) = [] then []
      else ''\<newline>\<newline>--- Recent Console Activity ---\<newline>'' @ windowSince_spec lib (recentLogs m) t w)
   \<and> snd (getRelevantLogs lib m t w) = m
   \<and> in_window t 5000 (e\<lparr>log_timestamp := t - 5000\<rparr>)
   \<and> in_window t 5000 (e\<lparr>log_timestamp := t\<rparr>)
   \<and> \<not> in_window t 5000 (e\<lparr>log_timestamp := t - 5001\<rparr>)
   \<and> \<not> in_window t 5000 (e\<lparr>log_timestamp := t + 1\<rparr>)
   \<and> toUpperCase ''log'' = ''LOG'' \<and> toUpperCase ''warn'' = ''WARN''
   \<and> toUpperCase ''error'' = ''ERROR''
   \<and> fst (getRelevantLogs window_lib window_monitor 6000 5000) =
       ''\<newline>\<newline>--- Recent Console Activity ---\<newline>[1970-01-01T00:00:01.000Z] ERROR: first\<newline>[1970-01-01T00:00:04.000Z] WARN: second\<newline>''"
proof -
  have line: "log_line lib = (\<lambda>e. ''['' @ iso_string lib (log_timestamp e) @ ''] ''
      @ toUpperCase (log_type e) @ '': '' @ log_message e @ ''\<newline>'')"
    by (rule ext) (simp add: log_line_def)
  have lines: "concat (map (log_line lib) (filter (in_window t w) es)) = windowSince_spec lib es t w"
    for es
    by (simp only: windowSince_spec_def line)
  have "fst (getRelevantLogs lib m t w) =
     (if filter (in_window t w) (recentLogs m) = [] then []
      else ''\<newline>\<newline>--- Recent Console Activity ---\<newline>'' @ windowSince_spec lib (recentLogs m) t w)"
    by (simp add: getRelevantLogs_filter lines log_header_def)
  moreover have "snd (getRelevantLogs lib m t w) = m"
    by (simp add: getRelevantLogs_filter)
  moreover have "in_window t 5000 (e\<lparr>log_timestamp := t - 5000\<rparr>)
      \<and> in_window t 5000 (e\<lparr>log_timestamp := t\<rparr>)
      \<and> \<not> in_window t 5000 (e\<lparr>log_timestamp := t - 5001\<rparr>)
      \<and> \<not> in_window t 5000 (e\<lparr>log_timestamp := t + 1\<rparr>)"
    by (simp add: in_window_def)
  ultimately show ?thesis using upper_kinds window_example by simp
qed

text \<open>
  C4 as stated fails: on the example buffer the stated result is the two formatted
  lines, and the code returns them after its header.
\<close>

theorem getRelevantLogs_header_counterexample:
  "windowSince_spec window_lib (recentLogs window_monitor) 6000 5000 =
     ''[1970-01-01T00:00:01.000Z] ERROR: first\<newline>[1970-01-01T00:00:04.000Z] WARN: second\<newline>''
   \<and> fst (getRelevantLogs window_lib window_monitor 6000 5000) =
     ''\<newline>\<newline>--- Recent Console Activity ---\<newline>[1970-01-01T00:00:01.000Z] ERROR: first\<newline>[1970-01-01T00:00:04.000Z] WARN: second\<newline>''
   \<and> fst (getRelevantLogs window_lib window_monitor 6000 5000)
       \<noteq> windowSince_spec window_lib (recentLogs window_monitor) 6000 5000"
proof -
  have spec: "windowSince_spec window_lib (recentLogs window_monitor) 6000 5000 =
     ''[1970-01-01T00:00:01.000Z] ERROR: first\<newline>[1970-01-01T00:00:04.000Z] WARN: second\<newline>''"
    by code_simp
  show ?thesis unfolding spec using window_example by simp
qed


section \<open>The configuration store\<close>

text \<open>
  C10. After a load that succeeded with config \<open>c\<close>, a load that finds the file
  absent, or whose file-system call fails, returns \<open>null\<close> and leaves the manager as it
  was: \<open>getConfig\<close> still returns \<open>c\<close> and \<open>isEnabled\<close> still reflects its
  \<open>enabled\<close> field.
\<close>

theorem load_failure_keeps_config:
  "pathExists good = Yields True \<and> readJson good = Yields c
   \<and> (pathExists bad = Yields False \<or> pathExists bad = Raises e \<or> readJson bad = Raises e) \<longrightarrow>
     fst (load good cm) = Some c
     \<and> fst (load bad (fst (snd (load good cm)))) = None
     \<and> fst (snd (load bad (fst (snd (load good cm))))) = fst (snd (load good cm))
     \<and> getConfig (fst (snd (load bad (fst (snd (load good cm)))))) = Some c
     \<and> isEnabled (fst (snd (load bad (fst (snd (load good cm)))))) = (enabled c = Some True)"
  by (cases "pathExists bad"; cases "readJson bad")
     (auto simp: load_def getConfig_def isEnabled_def split: io.splits bool.splits)

theorem load_failure_keeps_config_witness:
  "fst (load example_file (configManager example_monitor)) = Some example_config
   \<and> fst (load example_file_absent (fst (snd (load example_file (configManager example_monitor))))) = None
   \<and> getConfig (fst (snd (load example_file_absent
        (fst (snd (load example_file (configManager example_monitor))))))) = Some example_config
   \<and> isEnabled (fst (snd (load example_file_absent
        (fst (snd (load example_file (configManager example_monitor)))))))"
proof -
  have h: "pathExists example_file = Yields True \<and> readJson example_file = Yields example_config
      \<and> (pathExists example_file_absent = Yields False
          \<or> pathExists example_file_absent = Raises JNull
          \<or> readJson example_file_absent = Raises JNull)"
    by (simp add: example_file_def example_file_absent_def)
  have en: "enabled example_config = Some True"
    by (simp add: example_config_def)
  from load_failure_keeps_config[where good = example_file and c = example_config
      and bad = example_file_absent and e = JNull and cm = "configManager example_monitor"] h en
  show ?thesis by blast
qed


section \<open>Console dispatch touches the buffer and the traces only\<close>

lemma buffer_only_refl: "buffer_only m m"
  unfolding buffer_only_def by (rule exI[of _ "recentLogs m"]) simp

lemma buffer_only_trans: "buffer_only m m1 \<Longrightarrow> buffer_only m1 m2 \<Longrightarrow> buffer_only m m2"
  unfolding buffer_only_def by (elim exE, rule exI) simp

lemma traces_only_refl: "traces_only h h"
  unfolding traces_only_def by (rule exI[of _ "[]"], rule exI[of _ "console_out h"]) simp

lemma traces_only_trans: "traces_only h h1 \<Longrightarrow> traces_only h1 h2 \<Longrightarrow> traces_only h h2"
proof -
  assume "traces_only h h1" "traces_only h1 h2"
  then obtain ps1 out1 ps2 out2 where
    "h1 = h\<lparr>posts := posts h @ ps1, console_out := out1\<rparr>"
    "h2 = h1\<lparr>posts := posts h1 @ ps2, console_out := out2\<rparr>"
    unfolding traces_only_def by blast
  then have "h2 = h\<lparr>posts := posts h @ (ps1 @ ps2), console_out := out2\<rparr>" by simp
  then show ?thesis unfolding traces_only_def by blast
qed

lemma traces_only_posts: "traces_only h (h\<lparr>posts := posts h @ ps\<rparr>)"
  unfolding traces_only_def by (rule exI[of _ ps], rule exI[of _ "console_out h"]) simp

lemma traces_only_out: "traces_only h (h\<lparr>console_out := out\<rparr>)"
  unfolding traces_only_def by (rule exI[of _ "[]"], rule exI[of _ out]) simp

lemma reportError_send_frame: "traces_only h (reportError_send r m h)"
  unfolding reportError_send_def
  by (cases "config m") (simp_all add: traces_only_refl traces_only_posts)

lemma reportError_send_posts:
  "posts (reportError_send r m h) = posts h @ (if config m = None then [] else [request_of h r])"
  by (simp add: reportError_send_def split: option.splits)

lemma handleConsoleError_frame: "traces_only h (snd (handleConsoleError lib args m h))"
  unfolding handleConsoleError_def Let_def
  by (simp add: traces_only_refl reportError_send_frame split: sum.splits)

lemma captureConsoleLog_frame: "buffer_only m (captureConsoleLog lib t type args m)"
  unfolding captureConsoleLog_def Let_def buffer_only_def by blast

lemma call_console_frame:
  "call_console n lib f args m h = (r, m', h') \<Longrightarrow> buffer_only m m' \<and> traces_only h h'"
proof (induction n lib f args m h arbitrary: r m' h' rule: call_console.induct)
  case (1 lib f args m h)
  then show ?case by (simp add: buffer_only_refl traces_only_refl)
next
  case (2 n lib i args m h)
  then have "m' = m" "h' = h\<lparr>console_out := console_out h @ [(i, args)]\<rparr>" by simp_all
  then show ?case by (simp only: buffer_only_refl traces_only_out)
next
  case (3 n lib i k args m h)
  obtain r1 m1 h1 where inner: "call_console n lib (original_of k m) args m h = (r1, m1, h1)"
    by (cases "call_console n lib (original_of k m) args m h") auto
  from "3.IH"[OF inner] have m1: "buffer_only m m1" and h1: "traces_only h h1" by simp_all
  show ?case
  proof (cases r1)
    case (Inl e)
    with "3.prems" inner have "m' = m1" "h' = h1" by simp_all
    with m1 h1 show ?thesis by simp
  next
    case (Inr u)
    let ?m2 = "captureConsoleLog lib (now h1) (kind_name k) args m1"
    have m2: "buffer_only m ?m2"
      using m1 captureConsoleLog_frame by (rule buffer_only_trans)
    show ?thesis
    proof (cases "k = KError")
      case True
      obtain r2 h2 where hce: "handleConsoleError lib args ?m2 h1 = (r2, h2)"
        by (cases "handleConsoleError lib args ?m2 h1") auto
      have "traces_only h1 h2"
        using handleConsoleError_frame[of h1 lib args ?m2] hce by simp
      with h1 have h2: "traces_only h h2" by (rule traces_only_trans)
      from "3.prems" inner Inr True hce have "m' = ?m2" "h' = h2" by (auto simp: Let_def)
      with m2 h2 show ?thesis by simp
    next
      case False
      from "3.prems" inner Inr False have "m' = ?m2" "h' = h1" by (auto simp: Let_def)
      with m2 h1 show ?thesis by simp
    qed
  qed
qed

lemma console_frame:
  "console k n lib args m h = (r, m', h') \<Longrightarrow> buffer_only m m' \<and> traces_only h h'"
  unfolding console_def by (rule call_console_frame)

lemma run_calls_frame:
  "run_calls n lib calls m h = (r, m', h') \<Longrightarrow> buffer_only m m' \<and> traces_only h h'"
proof (induction n lib calls m h arbitrary: r m' h' rule: run_calls.induct)
  case (1 frames lib m h)
  then show ?case by (simp add: buffer_only_refl traces_only_refl)
next
  case (2 frames lib k args cs m h)
  obtain r1 m1 h1 where c: "console k frames lib args m h = (r1, m1, h1)"
    by (cases "console k frames lib args m h") auto
  from console_frame[OF c] have f1: "buffer_only m m1" "traces_only h h1" by simp_all
  show ?case
  proof (cases r1)
    case (Inl e)
    with "2.prems" c f1 show ?thesis by simp
  next
    case (Inr u)
    with "2.prems" c have "run_calls frames lib cs m1 h1 = (r, m', h')" by simp
    from "2.IH"[OF c[symmetric] _ _ this] Inr f1 show ?thesis
      by (auto intro: buffer_only_trans traces_only_trans)
  qed
qed


section \<open>Lifecycle\<close>

lemma buffer_only_fields:
  "buffer_only m m' \<Longrightarrow>
     config m' = config m \<and> configManager m' = configManager m \<and> isStarted m' = isStarted m
     \<and> saved_originals m' = saved_originals m \<and> maxLogs m' = maxLogs m
     \<and> originals_are_host m' = originals_are_host m"
  unfolding buffer_only_def saved_originals_def originals_are_host_def by auto

lemma traces_only_fields:
  "traces_only h h' \<Longrightarrow>
     installed_hooks h' = installed_hooks h \<and> fresh h' = fresh h \<and> now h' = now h
     \<and> (\<exists>ps. posts h' = posts h @ ps)"
  unfolding traces_only_def installed_hooks_def by auto

lemma start_try_no_install:
  assumes run: "start_try frames lib file m h = (r, m', h')"
    and guard: "isStarted m \<or> fst (load file (configManager m)) = None
                \<or> (\<exists>c. fst (load file (configManager m)) = Some c \<and> enabled c \<noteq> Some True)"
  shows "isStarted m' = isStarted m \<and> saved_originals m' = saved_originals m \<and> traces_only h h'"
proof -
  obtain loaded cm1 calls where ld: "load file (configManager m) = (loaded, cm1, calls)"
    by (cases "load file (configManager m)") auto
  obtain r1 m1 h1 where rc: "run_calls frames lib calls (m\<lparr>configManager := cm1\<rparr>) h = (r1, m1, h1)"
    by (cases "run_calls frames lib calls (m\<lparr>configManager := cm1\<rparr>) h") auto
  from run_calls_frame[OF rc] have b1: "buffer_only (m\<lparr>configManager := cm1\<rparr>) m1"
    and t1: "traces_only h h1" by simp_all
  from buffer_only_fields[OF b1] have s1: "isStarted m1 = isStarted m"
    and o1: "saved_originals m1 = saved_originals m" by (simp_all add: saved_originals_def)
  show ?thesis
  proof (cases r1)
    case (Inl e)
    with run ld rc have "m' = m1" "h' = h1" by (auto simp: start_try_def)
    with s1 o1 t1 show ?thesis by simp
  next
    case (Inr u)
    let ?m2 = "m1\<lparr>config := loaded\<rparr>"
    have s2: "isStarted ?m2 = isStarted m" and o2: "saved_originals ?m2 = saved_originals m"
      using s1 o1 by (simp_all add: saved_originals_def)
    from guard ld have "\<exists>k args. start_try frames lib file m h = console k frames lib args ?m2 h1"
      using rc Inr s2 by (auto simp: start_try_def Let_def split: option.splits)
    then obtain k args where "console k frames lib args ?m2 h1 = (r, m', h')"
      using run by auto
    from console_frame[OF this] have "buffer_only ?m2 m'" "traces_only h1 h'" by simp_all
    with buffer_only_fields[of ?m2 m'] s2 o2 t1 show ?thesis
      by (auto intro: traces_only_trans)
  qed
qed


lemma start_no_install:
  assumes run: "start frames lib file m h = (r, m', h')"
    and guard: "isStarted m \<or> fst (load file (configManager m)) = None
                \<or> (\<exists>c. fst (load file (configManager m)) = Some c \<and> enabled c \<noteq> Some True)"
  shows "isStarted m' = isStarted m \<and> saved_originals m' = saved_originals m \<and> traces_only h h'"
proof -
  obtain r1 m1 h1 where st: "start_try frames lib file m h = (r1, m1, h1)"
    by (cases "start_try frames lib file m h") auto
  from start_try_no_install[OF st guard] have f1: "isStarted m1 = isStarted m"
    "saved_originals m1 = saved_originals m" "traces_only h h1" by simp_all
  show ?thesis
  proof (cases r1)
    case (Inr u)
    with run st have "m' = m1" "h' = h1" by (auto simp: start_def)
    with f1 show ?thesis by simp
  next
    case (Inl e)
    with run st have "console KError frames lib [JStr ''Wingman: Failed to start monitoring:'', e] m1 h1
        = (r, m', h')" by (simp add: start_def)
    from console_frame[OF this] have "buffer_only m1 m'" "traces_only h1 h'" by simp_all
    with buffer_only_fields[of m1 m'] f1 show ?thesis
      by (auto intro: traces_only_trans)
  qed
qed

lemma setupErrorHandlers_monitor:
  "config (fst (setupErrorHandlers m h)) = config m
   \<and> configManager (fst (setupErrorHandlers m h)) = configManager m
   \<and> isStarted (fst (setupErrorHandlers m h)) = isStarted m
   \<and> recentLogs (fst (setupErrorHandlers m h)) = recentLogs m
   \<and> maxLogs (fst (setupErrorHandlers m h)) = maxLogs m
   \<and> originalConsoleError (fst (setupErrorHandlers m h)) = console_error h
   \<and> originalConsoleWarn (fst (setupErrorHandlers m h)) = console_warn h
   \<and> originalConsoleLog (fst (setupErrorHandlers m h)) = console_log h"
  by (simp add: setupErrorHandlers_def Let_def)

lemma setupErrorHandlers_console:
  "\<not> is_host (console_error (snd (setupErrorHandlers m h)))
   \<and> \<not> is_host (console_warn (snd (setupErrorHandlers m h)))
   \<and> \<not> is_host (console_log (snd (setupErrorHandlers m h)))
   \<and> posts (snd (setupErrorHandlers m h)) = posts h"
  by (simp add: setupErrorHandlers_def Let_def is_host_def)

lemma start_config_loaded:
  assumes run: "start frames lib file m h = (r, m', h')"
    and quiet: "snd (snd (load file (configManager m))) = []"
  shows "config m' = fst (load file (configManager m))"
proof -
  obtain loaded cm1 where ld: "load file (configManager m) = (loaded, cm1, [])"
    using quiet by (cases "load file (configManager m)") auto
  obtain r1 m1 h1 where st: "start_try frames lib file m h = (r1, m1, h1)"
    by (cases "start_try frames lib file m h") auto
  let ?m2 = "m\<lparr>configManager := cm1, config := loaded\<rparr>"
  have "\<exists>k args mm hh. config mm = loaded \<and> start_try frames lib file m h = console k frames lib args mm hh"
  proof (cases loaded)
    case None
    with ld show ?thesis
      by (intro exI[of _ KWarn] exI[of _ "[JStr no_config_text]"] exI[of _ ?m2] exI[of _ h])
         (simp add: start_try_def)
  next
    case (Some c)
    show ?thesis
    proof (cases "enabled c \<noteq> Some True")
      case True
      with ld Some show ?thesis
        by (intro exI[of _ KLog] exI[of _ "[JStr ''Wingman: Monitoring is disabled.'']"]
              exI[of _ ?m2] exI[of _ h])
           (simp add: start_try_def)
    next
      case False
      show ?thesis
      proof (cases "isStarted m")
        case True
        with ld Some False show ?thesis
          by (intro exI[of _ KWarn] exI[of _ "[JStr ''Wingman: Already started.'']"]
                exI[of _ ?m2] exI[of _ h])
             (simp add: start_try_def)
      next
        case stopped: False
        with ld Some False show ?thesis
          by (intro exI[of _ KLog] exI[of _ "[JStr (''Wingman: Monitoring started for ''
                @ cfg_environment c @ '' environment'')]"]
                exI[of _ "(fst (setupErrorHandlers ?m2 h))\<lparr>isStarted := True\<rparr>"]
                exI[of _ "snd (setupErrorHandlers ?m2 h)"])
             (simp add: start_try_def setupErrorHandlers_monitor split: prod.splits)
      qed
    qed
  qed
  then obtain k args mm hh where cfg: "config mm = loaded"
    and "console k frames lib args mm hh = (r1, m1, h1)" using st by auto
  from console_frame[OF this(2)] buffer_only_fields[of mm m1] cfg
  have c1: "config m1 = loaded" by simp
  show ?thesis
  proof (cases r1)
    case (Inr u)
    with run st have "m' = m1" by (auto simp: start_def)
    with c1 ld show ?thesis by simp
  next
    case (Inl e)
    with run st have "console KError frames lib [JStr ''Wingman: Failed to start monitoring:'', e] m1 h1
        = (r, m', h')" by (simp add: start_def)
    from console_frame[OF this] buffer_only_fields[of m1 m'] c1 ld show ?thesis by simp
  qed
qed

lemma start_installs:
  assumes run: "start frames lib file m h = (r, m', h')"
    and stopped: "\<not> isStarted m"
    and readable: "pathExists file = Yields True" "readJson file = Yields c"
    and on: "enabled c = Some True"
  shows "isStarted m' \<and> config m' = Some c
     \<and> originalConsoleError m' = console_error h \<and> originalConsoleWarn m' = console_warn h
     \<and> originalConsoleLog m' = console_log h
     \<and> installed_hooks h' = installed_hooks (snd (setupErrorHandlers m h))"
proof -
  let ?cm1 = "(configManager m)\<lparr>cm_config := Some c\<rparr>"
  have ld: "load file (configManager m) = (Some c, ?cm1, [])"
    using readable by (simp add: load_def)
  let ?m2 = "m\<lparr>configManager := ?cm1, config := Some c\<rparr>"
  let ?m3 = "(fst (setupErrorHandlers ?m2 h))\<lparr>isStarted := True\<rparr>"
  let ?h3 = "snd (setupErrorHandlers ?m2 h)"
  obtain r1 m1 h1 where st: "start_try frames lib file m h = (r1, m1, h1)"
    by (cases "start_try frames lib file m h") auto
  have "start_try frames lib file m h = console KLog frames lib
      [JStr (''Wingman: Monitoring started for '' @ cfg_environment c @ '' environment'')] ?m3 ?h3"
    using ld stopped on by (simp add: start_try_def split: prod.splits)
  with st have "console KLog frames lib
      [JStr (''Wingman: Monitoring started for '' @ cfg_environment c @ '' environment'')] ?m3 ?h3
      = (r1, m1, h1)" by simp
  from console_frame[OF this] have b: "buffer_only ?m3 m1" and t: "traces_only ?h3 h1" by simp_all
  have hooks3: "installed_hooks ?h3 = installed_hooks (snd (setupErrorHandlers m h))"
    by (simp add: setupErrorHandlers_def Let_def installed_hooks_def)
  have m1: "isStarted m1 \<and> config m1 = Some c \<and> originalConsoleError m1 = console_error h
      \<and> originalConsoleWarn m1 = console_warn h \<and> originalConsoleLog m1 = console_log h"
    using buffer_only_fields[OF b] by (simp add: setupErrorHandlers_monitor saved_originals_def)
  have h1: "installed_hooks h1 = installed_hooks (snd (setupErrorHandlers m h))"
    using traces_only_fields[OF t] hooks3 by simp
  show ?thesis
  proof (cases r1)
    case (Inr u)
    with run st have "m' = m1" "h' = h1" by (auto simp: start_def)
    with m1 h1 show ?thesis by simp
  next
    case (Inl e)
    with run st have "console KError frames lib [JStr ''Wingman: Failed to start monitoring:'', e] m1 h1
        = (r, m', h')" by (simp add: start_def)
    from console_frame[OF this] have "buffer_only m1 m'" "traces_only h1 h'" by simp_all
    with buffer_only_fields[of m1 m'] traces_only_fields[of h1 h'] m1 h1 show ?thesis
      by (simp add: saved_originals_def)
  qed
qed

text \<open>Unfolding the examples.\<close>

lemmas example_defs = start_def start_try_def load_def example_file_def example_monitor_def
  example_file_absent_def example_file_disabled_def started_example_def disabled_example_def
  stopped_example_def stop_def removeErrorHandlers_def removeListener_def
  new_WingmanMonitor_def example_host_def setupErrorHandlers_def Let_def console_def console_of_def
  original_of_def captureConsoleLog_def example_config_def kind_name_def truthy_def
  serialize_arg_def typeof_object_def example_lib_def eval_nat_numeral

text \<open>
  C8. \<open>isActive()\<close> is true exactly when the monitor is started and the loaded config
  has \<open>enabled\<close> true. It is false on a new monitor and false when the loaded config has
  \<open>enabled = false\<close>. When \<open>start()\<close> on a stopped monitor finds no config, or one
  whose \<open>enabled\<close> is not true, the monitor stays stopped, no slot of the host changes
  and nothing is saved. After \<open>start()\<close> on a stopped monitor with a readable config
  whose \<open>enabled\<close> is true, the monitor is started and active.
\<close>

theorem isActive_iff_started_and_enabled:
  "isActive m = (isStarted m \<and> (\<exists>c. config m = Some c \<and> enabled c = Some True))
   \<and> \<not> isActive (new_WingmanMonitor project h)
   \<and> (config m = Some c \<and> enabled c = Some False \<longrightarrow> \<not> isActive m)
   \<and> (\<not> isStarted m
        \<and> (fst (load cfile (configManager m)) = None
            \<or> (\<exists>c. fst (load cfile (configManager m)) = Some c \<and> enabled c \<noteq> Some True))
       \<longrightarrow> \<not> isStarted (monitor_of (start frames lib cfile m h))
           \<and> \<not> isActive (monitor_of (start frames lib cfile m h))
           \<and> installed_hooks (host_of (start frames lib cfile m h)) = installed_hooks h
           \<and> saved_originals (monitor_of (start frames lib cfile m h)) = saved_originals m)
   \<and> (\<not> isStarted m \<and> pathExists cfile = Yields True \<and> readJson cfile = Yields c
        \<and> enabled c = Some True
       \<longrightarrow> isStarted (monitor_of (start frames lib cfile m h))
           \<and> isActive (monitor_of (start frames lib cfile m h)))"
proof (intro conjI impI)
  show "isActive m = (isStarted m \<and> (\<exists>c. config m = Some c \<and> enabled c = Some True))"
    by (cases "config m") (simp_all add: isActive_def)
  show "\<not> isActive (new_WingmanMonitor project h)"
    by (simp add: isActive_def new_WingmanMonitor_def)
  show "\<not> isActive m" if "config m = Some c \<and> enabled c = Some False"
    using that by (simp add: isActive_def)
next
  assume a: "\<not> isStarted m
        \<and> (fst (load cfile (configManager m)) = None
            \<or> (\<exists>c. fst (load cfile (configManager m)) = Some c \<and> enabled c \<noteq> Some True))"
  obtain r m' h' where run: "start frames lib cfile m h = (r, m', h')"
    by (cases "start frames lib cfile m h") auto
  from start_no_install[OF run] a
  have f: "isStarted m' = isStarted m" "saved_originals m' = saved_originals m" "traces_only h h'"
    by auto
  from f a run show "\<not> isStarted (monitor_of (start frames lib cfile m h))" by simp
  then show "\<not> isActive (monitor_of (start frames lib cfile m h))" by (simp add: isActive_def)
  from f run traces_only_fields[of h h']
  show "installed_hooks (host_of (start frames lib cfile m h)) = installed_hooks h" by simp
  from f run show "saved_originals (monitor_of (start frames lib cfile m h)) = saved_originals m"
    by simp
next
  assume a: "\<not> isStarted m \<and> pathExists cfile = Yields True \<and> readJson cfile = Yields c
        \<and> enabled c = Some True"
  obtain r m' h' where run: "start frames lib cfile m h = (r, m', h')"
    by (cases "start frames lib cfile m h") auto
  from start_installs[OF run] a have "isStarted m'" "config m' = Some c" by simp_all
  with a run show "isStarted (monitor_of (start frames lib cfile m h))"
    and "isActive (monitor_of (start frames lib cfile m h))"
    by (simp_all add: isActive_def)
qed

theorem isActive_iff_started_and_enabled_witness:
  "\<not> isActive example_monitor
   \<and> \<not> isStarted (monitor_of (start 8 example_lib example_file_disabled example_monitor example_host))
   \<and> \<not> isActive (monitor_of (start 8 example_lib example_file_disabled example_monitor example_host))
   \<and> installed_hooks (host_of (start 8 example_lib example_file_disabled example_monitor example_host))
       = installed_hooks example_host
   \<and> \<not> isStarted (monitor_of (start 8 example_lib example_file_absent example_monitor example_host))
   \<and> isActive (monitor_of (start 8 example_lib example_file example_monitor example_host))"
proof -
  have stopped: "\<not> isStarted example_monitor"
    by (simp add: example_monitor_def new_WingmanMonitor_def)
  have off: "fst (load example_file_disabled (configManager example_monitor))
      = Some (example_config\<lparr>enabled := Some False\<rparr>)"
    by (simp add: load_def example_file_disabled_def)
  have none: "fst (load example_file_absent (configManager example_monitor)) = None"
    by (simp add: load_def example_file_absent_def)
  have on: "pathExists example_file = Yields True \<and> readJson example_file = Yields example_config
      \<and> enabled example_config = Some True"
    by (simp add: example_file_def example_config_def)
  have idle: "\<not> isActive example_monitor"
    using isActive_iff_started_and_enabled[where m = example_monitor] stopped by blast
  from isActive_iff_started_and_enabled[where m = example_monitor and cfile = example_file_disabled
      and frames = 8 and lib = example_lib and h = example_host] stopped off
  have a: "\<not> isStarted (monitor_of (start 8 example_lib example_file_disabled example_monitor example_host))
   \<and> \<not> isActive (monitor_of (start 8 example_lib example_file_disabled example_monitor example_host))
   \<and> installed_hooks (host_of (start 8 example_lib example_file_disabled example_monitor example_host))
       = installed_hooks example_host" by simp
  from isActive_iff_started_and_enabled[where m = example_monitor and cfile = example_file_absent
      and frames = 8 and lib = example_lib and h = example_host] stopped none
  have b: "\<not> isStarted (monitor_of (start 8 example_lib example_file_absent example_monitor example_host))"
    by simp
  from isActive_iff_started_and_enabled[where m = example_monitor and cfile = example_file
      and c = example_config and frames = 8 and lib = example_lib and h = example_host] stopped on
  have c: "isActive (monitor_of (start 8 example_lib example_file example_monitor example_host))"
    by blast
  from idle a b c show ?thesis by simp
qed

text \<open>
  C9 (as amended). \<open>start()\<close> on a started monitor leaves the started flag, the slots
  of the host and the saved originals as they are. It is not a no-op: it loads the
  config first and stores the result, \<open>null\<close> when the file is absent and the file's
  config when it is readable.
\<close>

theorem start_when_started:
  "isStarted m \<longrightarrow>
     isStarted (monitor_of (start frames lib cfile m h))
     \<and> installed_hooks (host_of (start frames lib cfile m h)) = installed_hooks h
     \<and> saved_originals (monitor_of (start frames lib cfile m h)) = saved_originals m
     \<and> (pathExists cfile = Yields False \<longrightarrow> config (monitor_of (start frames lib cfile m h)) = None)
     \<and> (pathExists cfile = Yields True \<and> readJson cfile = Yields c
          \<longrightarrow> config (monitor_of (start frames lib cfile m h)) = Some c)"
proof (intro impI conjI)
  assume s: "isStarted m"
  obtain r m' h' where run: "start frames lib cfile m h = (r, m', h')"
    by (cases "start frames lib cfile m h") auto
  from start_no_install[OF run] s
  have f: "isStarted m' = isStarted m" "saved_originals m' = saved_originals m" "traces_only h h'"
    by auto
  from f s run show "isStarted (monitor_of (start frames lib cfile m h))" by simp
  from f run traces_only_fields[of h h']
  show "installed_hooks (host_of (start frames lib cfile m h)) = installed_hooks h" by simp
  from f run show "saved_originals (monitor_of (start frames lib cfile m h)) = saved_originals m"
    by simp
  show "config (monitor_of (start frames lib cfile m h)) = None" if "pathExists cfile = Yields False"
    using start_config_loaded[OF run] that run by (simp add: load_def)
  show "config (monitor_of (start frames lib cfile m h)) = Some c"
    if "pathExists cfile = Yields True \<and> readJson cfile = Yields c"
    using start_config_loaded[OF run] that run by (simp add: load_def)
qed

theorem start_when_started_witness:
  "isStarted (monitor_of started_example)
   \<and> isStarted (monitor_of (start 8 example_lib example_file_absent
        (monitor_of started_example) (host_of started_example)))
   \<and> installed_hooks (host_of (start 8 example_lib example_file_absent
        (monitor_of started_example) (host_of started_example)))
       = installed_hooks (host_of started_example)
   \<and> config (monitor_of (start 8 example_lib example_file_absent
        (monitor_of started_example) (host_of started_example))) = None"
proof -
  have s: "isStarted (monitor_of started_example)"
    by (simp add: example_defs)
  have f: "pathExists example_file_absent = Yields False"
    by (simp add: example_file_absent_def)
  from start_when_started[where m = "monitor_of started_example" and h = "host_of started_example"
      and cfile = example_file_absent and frames = 8 and lib = example_lib] s f
  show ?thesis by blast
qed

text \<open>
  C9 as stated fails on the started example monitor: a second \<open>start()\<close> on the same
  file changes the log buffer (its warning goes through the intercepted
  \<open>console.warn\<close>), and a second \<open>start()\<close> after the file has gone replaces the
  config in memory by \<open>null\<close>.
\<close>

theorem start_when_started_counterexample:
  "isStarted (monitor_of started_example)
   \<and> recentLogs (monitor_of (start 8 example_lib example_file
        (monitor_of started_example) (host_of started_example)))
       \<noteq> recentLogs (monitor_of started_example)
   \<and> config (monitor_of (start 8 example_lib example_file_absent
        (monitor_of started_example) (host_of started_example)))
       \<noteq> config (monitor_of started_example)"
  by (simp add: example_defs)



section \<open>The send path\<close>

lemma reportError_no_config:
  "config m = None \<Longrightarrow> reportError frames lib d r m h = (Inr (), m, h)"
  by (simp add: reportError_def)

lemma reportError_posts:
  assumes "config m = Some c"
  shows "\<exists>ps. posts (host_of (reportError frames lib d r m h)) = posts h @ request_of h r # ps"
proof -
  let ?h0 = "reportError_send r m h"
  have p0: "posts ?h0 = posts h @ [request_of h r]"
    using assms by (simp add: reportError_send_posts)
  obtain r1 m1 h1 where first: "(if delivered d
        then console KLog frames lib [JStr ''Wingman: Error reported successfully''] m ?h0
        else (Inl (axios_error d), m, ?h0)) = (r1, m1, h1)"
    by (cases "(if delivered d
        then console KLog frames lib [JStr ''Wingman: Error reported successfully''] m ?h0
        else (Inl (axios_error d), m, ?h0))") auto
  have "traces_only ?h0 h1"
  proof (cases "delivered d")
    case True
    with first console_frame show ?thesis by simp
  next
    case False
    with first have "h1 = ?h0" by auto
    then show ?thesis by (simp add: traces_only_refl)
  qed
  then obtain ps1 where p1: "posts h1 = posts ?h0 @ ps1"
    using traces_only_fields by blast
  show ?thesis
  proof (cases r1)
    case (Inr u)
    have "host_of (reportError frames lib d r m h) = h1"
      using assms Inr first unfolding reportError_def reportError_settle_def by (simp only: option.case) simp
    with p0 p1 show ?thesis by simp
  next
    case (Inl e)
    obtain r2 m2 h2 where second:
      "console KError frames lib [JStr ''Wingman: Failed to report error:'', e] m1 h1 = (r2, m2, h2)"
      by (cases "console KError frames lib [JStr ''Wingman: Failed to report error:'', e] m1 h1") auto
    from console_frame[OF second] traces_only_fields[of h1 h2]
    obtain ps2 where p2: "posts h2 = posts h1 @ ps2" by blast
    have "host_of (reportError frames lib d r m h) = h2"
      using assms Inl first second unfolding reportError_def reportError_settle_def by (simp only: option.case) simp
    with p0 p1 p2 show ?thesis by simp
  qed
qed

lemma reportError_posts_iff:
  "(posts (host_of (reportError frames lib d r m h)) = posts h) = (config m = None)"
proof (cases "config m")
  case None
  then show ?thesis by (simp add: reportError_no_config)
next
  case (Some c)
  from reportError_posts[OF Some, of frames lib d r h] Some show ?thesis by auto
qed


lemma build_env [simp]:
  "buildComprehensiveMessage lib m (h\<lparr>NODE_ENV := v\<rparr>) msg ec = buildComprehensiveMessage lib m h msg ec"
  by (simp add: buildComprehensiveMessage_def)

lemma page_env [simp]:
  "page_url (h\<lparr>NODE_ENV := v\<rparr>) = page_url h"
  "page_userAgent (h\<lparr>NODE_ENV := v\<rparr>) = page_userAgent h"
  "getProjectInfo m (h\<lparr>NODE_ENV := v\<rparr>) = getProjectInfo m h"
  "request_of (h\<lparr>NODE_ENV := v\<rparr>) r = request_of h r"
  by (simp_all add: page_url_def page_userAgent_def getProjectInfo_def request_of_def)

lemma reportError_send_env [simp]:
  "reportError_send r m (h\<lparr>NODE_ENV := v\<rparr>) = (reportError_send r m h)\<lparr>NODE_ENV := v\<rparr>"
  by (simp add: reportError_send_def split: option.splits)

lemma handleConsoleError_env:
  "handleConsoleError lib args m (h\<lparr>NODE_ENV := v\<rparr>) =
     (fst (handleConsoleError lib args m h), (snd (handleConsoleError lib args m h))\<lparr>NODE_ENV := v\<rparr>)"
  by (simp add: handleConsoleError_def Let_def split: sum.splits)

lemma call_console_env:
  "call_console n lib f args m (h\<lparr>NODE_ENV := v\<rparr>) =
     (fst (call_console n lib f args m h), monitor_of (call_console n lib f args m h),
      (host_of (call_console n lib f args m h))\<lparr>NODE_ENV := v\<rparr>)"
proof (induction n lib f args m h rule: call_console.induct)
  case (1 lib f args m h)
  then show ?case by simp
next
  case (2 n lib i args m h)
  then show ?case by simp
next
  case (3 n lib i k args m h)
  obtain r1 m1 h1 where inner: "call_console n lib (original_of k m) args m h = (r1, m1, h1)"
    by (cases "call_console n lib (original_of k m) args m h") auto
  with "3.IH" have inner_env:
    "call_console n lib (original_of k m) args m (h\<lparr>NODE_ENV := v\<rparr>) = (r1, m1, h1\<lparr>NODE_ENV := v\<rparr>)"
    by simp
  show ?case
    by (cases r1) (simp_all add: inner inner_env handleConsoleError_env Let_def split: prod.splits)
qed

lemma console_env:
  "console k n lib args m (h\<lparr>NODE_ENV := v\<rparr>) =
     (fst (console k n lib args m h), monitor_of (console k n lib args m h),
      (host_of (console k n lib args m h))\<lparr>NODE_ENV := v\<rparr>)"
  by (cases k) (simp_all add: console_def console_of_def call_console_env)

lemma reportError_env:
  "reportError frames lib d r m (h\<lparr>NODE_ENV := v\<rparr>) =
     (fst (reportError frames lib d r m h), monitor_of (reportError frames lib d r m h),
      (host_of (reportError frames lib d r m h))\<lparr>NODE_ENV := v\<rparr>)"
proof (cases "config m")
  case None
  then show ?thesis by (simp add: reportError_def)
next
  case (Some c)
  let ?h0 = "reportError_send r m h"
  show ?thesis
  proof (cases "delivered d")
    case True
    obtain r1 m1 h1 where k:
      "console KLog frames lib [JStr ''Wingman: Error reported successfully''] m ?h0 = (r1, m1, h1)"
      by (cases "console KLog frames lib [JStr ''Wingman: Error reported successfully''] m ?h0") auto
    then have k_env:
      "console KLog frames lib [JStr ''Wingman: Error reported successfully''] m (?h0\<lparr>NODE_ENV := v\<rparr>)
         = (r1, m1, h1\<lparr>NODE_ENV := v\<rparr>)"
      by (simp add: console_env)
    show ?thesis
      using Some True k k_env by (cases r1) (simp_all add: reportError_def reportError_settle_def console_env)
  next
    case False
    with Some show ?thesis by (simp add: reportError_def reportError_settle_def console_env)
  qed
qed

text \<open>
  C1 (as amended). The send path posts exactly when a config is loaded in the monitor,
  whatever its \<open>enabled\<close> field and whether or not the monitor is started: the
  trace of requests is unchanged by \<open>reportError\<close>, and so by \<open>reportCustomError\<close>,
  if and only if no config is loaded.
\<close>

theorem report_sent_iff_config_loaded:
  "(posts (reportError_send r m h) = posts h) = (config m = None)
   \<and> (posts (host_of (reportError frames lib d r m h)) = posts h) = (config m = None)
   \<and> (posts (host_of (reportCustomError frames lib d error md m h)) = posts h) = (config m = None)"
  by (simp add: reportError_send_posts reportError_posts_iff reportCustomError_def)

text \<open>
  C1 as stated fails: after \<open>start()\<close> has found a config with \<open>enabled = false\<close> the
  monitor is not started, the config is loaded, and \<open>reportCustomError\<close> posts.
\<close>

theorem report_sent_while_disabled_counterexample:
  "\<not> isStarted (monitor_of disabled_example)
   \<and> map_option enabled (config (monitor_of disabled_example)) = Some (Some False)
   \<and> posts (host_of disabled_example) = []
   \<and> length (posts (host_of (reportCustomError 8 example_lib (Response 200) example_error None
        (monitor_of disabled_example) (host_of disabled_example)))) = 1"
  by (simp add: example_defs reportCustomError_def reportError_def reportError_settle_def reportError_send_def delivered_def)

lemma customErrorReport_env:
  "customErrorReport lib error md m (h\<lparr>NODE_ENV := v\<rparr>) = customErrorReport lib error md m h"
  by (simp add: customErrorReport_def)

text \<open>
  C6. The report \<open>reportCustomError\<close> builds has severity \<open>medium\<close> and type
  \<open>customError\<close>; with a config loaded its request is handed to the send path and
  posted, whatever the error; and the call does not depend on \<open>NODE_ENV\<close>, the
  only input of the filter's environment rule: changing it changes nothing but that
  variable.
\<close>

theorem reportCustomError_bypasses_filter:
  "severity (customErrorReport lib error md m h) = Medium
   \<and> errorType (customErrorReport lib error md m h) = ''customError''
   \<and> (config m \<noteq> None \<longrightarrow>
        (\<exists>ps. posts (host_of (reportCustomError frames lib d error md m h))
               = posts h @ request_of h (customErrorReport lib error md m h) # ps))
   \<and> reportCustomError frames lib d error md m (h\<lparr>NODE_ENV := v\<rparr>)
       = (fst (reportCustomError frames lib d error md m h),
          monitor_of (reportCustomError frames lib d error md m h),
          (host_of (reportCustomError frames lib d error md m h))\<lparr>NODE_ENV := v\<rparr>)"
proof (intro conjI impI)
  show "severity (customErrorReport lib error md m h) = Medium"
    and "errorType (customErrorReport lib error md m h) = ''customError''"
    by (simp_all add: customErrorReport_def)
  show "\<exists>ps. posts (host_of (reportCustomError frames lib d error md m h))
          = posts h @ request_of h (customErrorReport lib error md m h) # ps"
    if "config m \<noteq> None"
    using that reportError_posts[of m _ frames lib d "customErrorReport lib error md m h" h]
    by (auto simp: reportCustomError_def)
  show "reportCustomError frames lib d error md m (h\<lparr>NODE_ENV := v\<rparr>)
       = (fst (reportCustomError frames lib d error md m h),
          monitor_of (reportCustomError frames lib d error md m h),
          (host_of (reportCustomError frames lib d error md m h))\<lparr>NODE_ENV := v\<rparr>)"
    by (simp add: reportCustomError_def customErrorReport_env reportError_env)
qed

theorem reportCustomError_bypasses_filter_witness:
  "\<not> shouldReportError (NODE_ENV (host_of started_example)) example_error None
   \<and> (\<exists>ps. posts (host_of (reportCustomError 8 example_lib (Response 200) example_error None
              (monitor_of started_example) (host_of started_example)))
            = posts (host_of started_example)
              @ request_of (host_of started_example)
                  (customErrorReport example_lib example_error None
                     (monitor_of started_example) (host_of started_example)) # ps)"
proof -
  have dev: "\<not> shouldReportError (NODE_ENV (host_of started_example)) example_error None"
    by (simp add: example_defs shouldReportError_def)
  have loaded: "config (monitor_of started_example) \<noteq> None"
    by (simp add: example_defs)
  from reportCustomError_bypasses_filter[where m = "monitor_of started_example"
      and h = "host_of started_example" and frames = 8 and lib = example_lib
      and d = "Response 200" and error = example_error and md = None] loaded dev
  show ?thesis by blast
qed













lemma failure_collect:
  "collect (map (\<lambda>arg. case arg of JStr s \<Rightarrow> Inr (Some s) | _ \<Rightarrow> JSON_stringify txt arg)
       [JStr s, axios_error d]) = Inr [Some s, Some (txt (axios_error d))]"
  by (cases d) (simp_all add: axios_error_def JSON_stringify_def)

lemma failure_is_Error: "list_ex instanceof_Error [JStr s, axios_error d]"
  by (cases d) (simp_all add: axios_error_def instanceof_Error_def)










section \<open>Stopping\<close>

lemma hook_loop:
  "original_of k m = Hook j k \<Longrightarrow> fst (call_console n lib (Hook i k) args m h) = Inl RangeError_stack"
proof (induction n arbitrary: i)
  case 0
  then show ?case by simp
next
  case (Suc n)
  from Suc.IH[OF Suc.prems, of j] Suc.prems show ?case
    by (cases "call_console n lib (Hook j k) args m h") simp
qed

lemma restart_throws:
  assumes stopped: "\<not> isStarted m"
    and readable: "pathExists cfile = Yields True" "readJson cfile = Yields c"
    and on: "enabled c = Some True"
    and hooked: "console_log h = Hook a KLog" "console_error h = Hook b KError"
  shows "fst (start n lib cfile m h) = Inl RangeError_stack"
proof -
  let ?cm1 = "(configManager m)\<lparr>cm_config := Some c\<rparr>"
  let ?m2 = "m\<lparr>configManager := ?cm1, config := Some c\<rparr>"
  let ?m3 = "(fst (setupErrorHandlers ?m2 h))\<lparr>isStarted := True\<rparr>"
  let ?h3 = "snd (setupErrorHandlers ?m2 h)"
  let ?args = "[JStr (''Wingman: Monitoring started for '' @ cfg_environment c @ '' environment'')]"
  have ld: "load cfile (configManager m) = (Some c, ?cm1, [])"
    using readable by (simp add: load_def)
  have st: "start_try n lib cfile m h = console KLog n lib ?args ?m3 ?h3"
    using ld stopped on by (simp add: start_try_def split: prod.splits)
  obtain f g where slots: "console_log ?h3 = Hook f KLog" "console_error ?h3 = Hook g KError"
    by (simp add: setupErrorHandlers_def Let_def)
  have origs: "original_of KLog ?m3 = Hook a KLog" "original_of KError ?m3 = Hook b KError"
    using hooked by (simp_all add: original_of_def setupErrorHandlers_monitor)
  obtain r1 m1 h1 where c1: "console KLog n lib ?args ?m3 ?h3 = (r1, m1, h1)"
    by (cases "console KLog n lib ?args ?m3 ?h3") auto
  have r1: "r1 = Inl RangeError_stack"
    using hook_loop[OF origs(1), of n lib f ?args ?h3] c1 slots(1)
    by (simp add: console_def console_of_def)
  from console_frame[OF c1] have "buffer_only ?m3 m1" "traces_only ?h3 h1" by simp_all
  with buffer_only_fields[of ?m3 m1] traces_only_fields[of ?h3 h1] origs(2) slots(2)
  have o1: "original_of KError m1 = Hook b KError" and s1: "console_error h1 = Hook g KError"
    by (simp_all add: original_of_def saved_originals_def installed_hooks_def)
  have "start n lib cfile m h =
      console KError n lib [JStr ''Wingman: Failed to start monitoring:'', RangeError_stack] m1 h1"
    using st c1 r1 by (simp add: start_def)
  then show ?thesis
    using hook_loop[OF o1, of n lib g _ h1] s1 by (simp add: console_def console_of_def)
qed

lemma removeErrorHandlers_console:
  "console_error (snd (removeErrorHandlers m h)) = console_error h
   \<and> console_warn (snd (removeErrorHandlers m h)) = console_warn h
   \<and> console_log (snd (removeErrorHandlers m h)) = console_log h"
  by (simp add: removeErrorHandlers_def Let_def split: option.splits)

lemma stop_console:
  "console_error (host_of (stop frames lib m h)) = console_error h
   \<and> console_warn (host_of (stop frames lib m h)) = console_warn h
   \<and> console_log (host_of (stop frames lib m h)) = console_log h"
proof (cases "isStarted m")
  case False
  then show ?thesis by (simp add: stop_def)
next
  case True
  obtain m1 h1 where rm: "removeErrorHandlers m h = (m1, h1)"
    by (cases "removeErrorHandlers m h") auto
  obtain r2 m2 h2 where c: "console KLog frames lib [JStr ''Wingman: Monitoring stopped'']
      (m1\<lparr>isStarted := False\<rparr>) h1 = (r2, m2, h2)"
    by (cases "console KLog frames lib [JStr ''Wingman: Monitoring stopped'']
      (m1\<lparr>isStarted := False\<rparr>) h1") auto
  from console_frame[OF c] traces_only_fields[of h1 h2]
  have "installed_hooks h2 = installed_hooks h1" by simp
  moreover have "host_of (stop frames lib m h) = h2"
    using True rm c by (simp add: stop_def)
  ultimately show ?thesis
    using removeErrorHandlers_console[of m h] rm by (simp add: installed_hooks_def)
qed

text \<open>
  C5, on the code. \<open>stop()\<close> on a monitor that is not started changes nothing. On a
  started monitor it does not uninstall what \<open>start()\<close> installed: it never assigns
  the console functions, so the three interceptors stay in place, and the listeners
  it asks the process to remove are the unbound methods, not the bound functions that
  were registered, so both listeners stay registered. On the example monitor, started
  and stopped, the console functions are still the hooks and the two listeners are
  still there; a following \<open>start()\<close> saves the old hooks as originals, after which
  every console call recurses until the stack is exhausted, and \<open>start()\<close> itself
  throws.
\<close>

theorem stop_leaves_hooks_installed:
  "console_error (host_of (stop frames lib m h)) = console_error h
   \<and> console_warn (host_of (stop frames lib m h)) = console_warn h
   \<and> console_log (host_of (stop frames lib m h)) = console_log h
   \<and> stop frames lib (m\<lparr>isStarted := False\<rparr>) h = (Inr (), m\<lparr>isStarted := False\<rparr>, h)
   \<and> isStarted (monitor_of started_example)
   \<and> \<not> isStarted (monitor_of stopped_example)
   \<and> console_error example_host = HostFn 0
   \<and> console_error (host_of stopped_example) = Hook 12 KError
   \<and> console_warn (host_of stopped_example) = Hook 13 KWarn
   \<and> console_log (host_of stopped_example) = Hook 14 KLog
   \<and> uncaughtException example_host = []
   \<and> uncaughtException (host_of stopped_example) = [Bound 10 ''handleUncaughtException'']
   \<and> unhandledRejection (host_of stopped_example) = [Bound 11 ''handleUnhandledRejection'']
   \<and> fst (start n example_lib example_file (monitor_of stopped_example) (host_of stopped_example))
       = Inl RangeError_stack"
proof -
  have general: "console_error (host_of (stop frames lib m h)) = console_error h
   \<and> console_warn (host_of (stop frames lib m h)) = console_warn h
   \<and> console_log (host_of (stop frames lib m h)) = console_log h"
    by (rule stop_console)
  have idle: "stop frames lib (m\<lparr>isStarted := False\<rparr>) h = (Inr (), m\<lparr>isStarted := False\<rparr>, h)"
    by (simp add: stop_def)
  have concrete: "isStarted (monitor_of started_example)
   \<and> \<not> isStarted (monitor_of stopped_example)
   \<and> console_error example_host = HostFn 0
   \<and> console_error (host_of stopped_example) = Hook 12 KError
   \<and> console_warn (host_of stopped_example) = Hook 13 KWarn
   \<and> console_log (host_of stopped_example) = Hook 14 KLog
   \<and> uncaughtException example_host = []
   \<and> uncaughtException (host_of stopped_example) = [Bound 10 ''handleUncaughtException'']
   \<and> unhandledRejection (host_of stopped_example) = [Bound 11 ''handleUnhandledRejection'']"
    by (simp add: example_defs)
  have "fst (start n example_lib example_file (monitor_of stopped_example) (host_of stopped_example))
       = Inl RangeError_stack"
  proof (rule restart_throws)
    show "\<not> isStarted (monitor_of stopped_example)" using concrete by simp
    show "pathExists example_file = Yields True" "readJson example_file = Yields example_config"
      by (simp_all add: example_file_def)
    show "enabled example_config = Some True" by (simp add: example_config_def)
    show "console_log (host_of stopped_example) = Hook 14 KLog"
      "console_error (host_of stopped_example) = Hook 12 KError" using concrete by simp_all
  qed
  with general idle concrete show ?thesis by simp
qed


end
